theory Spec2Isabelle
  imports Complex_Main "HOL-Library.Word"
begin

section \<open>Scene and view managers of the still-life renderer\<close>

text \<open>
  A shallow embedding of \<^verbatim>\<open>Source/SceneManager.cpp\<close> and \<^verbatim>\<open>Source/ViewManager.cpp\<close>.
  Every C++ \<^verbatim>\<open>float\<close> is read as a real number: arithmetic is exact, and rounding,
  infinities and NaN are outside the model. The C++ \<^verbatim>\<open>int\<close> counters stay far from
  their limits and are read as \<open>int\<close>; texture handles are 32-bit words, because their
  conversion to \<^verbatim>\<open>int\<close> matters.
\<close>

subsection \<open>GLM vectors and matrices\<close>

text \<open>
  GLM is an external library. Its vectors are tuples of components and a \<^verbatim>\<open>mat4\<close> is
  four columns; the functions below follow GLM's definitions of the operators and of
  \<^verbatim>\<open>radians\<close>, \<^verbatim>\<open>dot\<close>, \<^verbatim>\<open>normalize\<close>, \<^verbatim>\<open>scale\<close>, \<^verbatim>\<open>translate\<close> and \<^verbatim>\<open>rotate\<close> (the
  one-argument forms of \<^verbatim>\<open>gtx/transform.hpp\<close>, which start from the identity matrix).
\<close>

datatype vec2 = Vec2 real real

datatype vec3 = Vec3 (vx: real) (vy: real) (vz: real)

datatype vec4 = Vec4 (wx: real) (wy: real) (wz: real) (ww: real)

datatype mat4 = Mat4 (col0: vec4) (col1: vec4) (col2: vec4) (col3: vec4)

fun vec3_add :: "vec3 \<Rightarrow> vec3 \<Rightarrow> vec3" where
  "vec3_add (Vec3 a b c) (Vec3 x y z) = Vec3 (a + x) (b + y) (c + z)"


fun vec3_scale :: "vec3 \<Rightarrow> real \<Rightarrow> vec3" where
  "vec3_scale (Vec3 a b c) k = Vec3 (a * k) (b * k) (c * k)"

fun dot :: "vec3 \<Rightarrow> vec3 \<Rightarrow> real" where
  "dot (Vec3 a b c) (Vec3 x y z) = a * x + b * y + c * z"

definition inversesqrt :: "real \<Rightarrow> real" where
  "inversesqrt x = 1 / sqrt x"

definition normalize :: "vec3 \<Rightarrow> vec3" where
  "normalize v = vec3_scale v (inversesqrt (dot v v))"

definition radians :: "real \<Rightarrow> real" where
  "radians degrees = degrees * (pi / 180)"

fun vec4_add :: "vec4 \<Rightarrow> vec4 \<Rightarrow> vec4" where
  "vec4_add (Vec4 a b c d) (Vec4 x y z w) = Vec4 (a + x) (b + y) (c + z) (d + w)"

fun vec4_scale :: "vec4 \<Rightarrow> real \<Rightarrow> vec4" where
  "vec4_scale (Vec4 a b c d) k = Vec4 (a * k) (b * k) (c * k) (d * k)"

text \<open>Matrix times column vector: the linear combination of the columns.\<close>

fun mat4_apply :: "mat4 \<Rightarrow> vec4 \<Rightarrow> vec4" where
  "mat4_apply (Mat4 c0 c1 c2 c3) (Vec4 x y z w) =
     vec4_add (vec4_add (vec4_add (vec4_scale c0 x) (vec4_scale c1 y)) (vec4_scale c2 z))
       (vec4_scale c3 w)"

text \<open>Matrix product: column \<open>j\<close> of \<open>m1 * m2\<close> is \<open>m1\<close> applied to column \<open>j\<close> of \<open>m2\<close>.\<close>

fun mat4_mul :: "mat4 \<Rightarrow> mat4 \<Rightarrow> mat4" where
  "mat4_mul m1 (Mat4 d0 d1 d2 d3) =
     Mat4 (mat4_apply m1 d0) (mat4_apply m1 d1) (mat4_apply m1 d2) (mat4_apply m1 d3)"

fun glm_scale :: "vec3 \<Rightarrow> mat4" where
  "glm_scale (Vec3 x y z) =
     Mat4 (Vec4 x 0 0 0) (Vec4 0 y 0 0) (Vec4 0 0 z 0) (Vec4 0 0 0 1)"

fun glm_translate :: "vec3 \<Rightarrow> mat4" where
  "glm_translate (Vec3 x y z) =
     Mat4 (Vec4 1 0 0 0) (Vec4 0 1 0 0) (Vec4 0 0 1 0) (Vec4 x y z 1)"

text \<open>
  \<^verbatim>\<open>glm::rotate(angle, v)\<close>: the axis is normalised, \<open>temp = (1 - c) * axis\<close>, and the
  nine entries are GLM's, written column by column.
\<close>

definition glm_rotate :: "real \<Rightarrow> vec3 \<Rightarrow> mat4" where
  "glm_rotate angle v =
     (let c = cos angle; s = sin angle;
          axis = normalize v;
          temp = vec3_scale axis (1 - c)
      in Mat4
          (Vec4 (c + vx temp * vx axis)
                (vx temp * vy axis + s * vz axis)
                (vx temp * vz axis - s * vy axis) 0)
          (Vec4 (vy temp * vx axis - s * vz axis)
                (c + vy temp * vy axis)
                (vy temp * vz axis + s * vx axis) 0)
          (Vec4 (vz temp * vx axis + s * vy axis)
                (vz temp * vy axis - s * vx axis)
                (c + vz temp * vz axis) 0)
          (Vec4 0 0 0 1))"

subsection \<open>The shader manager\<close>

text \<open>
  The shader manager is an external collaborator: a store of named uniforms with one
  setter per type. A null \<^verbatim>\<open>m_pShaderManager\<close> is \<open>None\<close>.
\<close>

datatype uniform =
    UMat4 mat4
  | UVec2 vec2
  | UVec3 vec3
  | UVec4 vec4
  | UFloat real
  | UInt int
  | UBool bool
  | USampler2D int

type_synonym ShaderManager = "string \<Rightarrow> uniform option"

definition setMat4Value :: "string \<Rightarrow> mat4 \<Rightarrow> ShaderManager \<Rightarrow> ShaderManager" where
  "setMat4Value name v sh = sh(name \<mapsto> UMat4 v)"

definition setVec2Value :: "string \<Rightarrow> vec2 \<Rightarrow> ShaderManager \<Rightarrow> ShaderManager" where
  "setVec2Value name v sh = sh(name \<mapsto> UVec2 v)"

definition setVec3Value :: "string \<Rightarrow> vec3 \<Rightarrow> ShaderManager \<Rightarrow> ShaderManager" where
  "setVec3Value name v sh = sh(name \<mapsto> UVec3 v)"

definition setVec4Value :: "string \<Rightarrow> vec4 \<Rightarrow> ShaderManager \<Rightarrow> ShaderManager" where
  "setVec4Value name v sh = sh(name \<mapsto> UVec4 v)"

definition setFloatValue :: "string \<Rightarrow> real \<Rightarrow> ShaderManager \<Rightarrow> ShaderManager" where
  "setFloatValue name v sh = sh(name \<mapsto> UFloat v)"

definition setIntValue :: "string \<Rightarrow> int \<Rightarrow> ShaderManager \<Rightarrow> ShaderManager" where
  "setIntValue name v sh = sh(name \<mapsto> UInt v)"

definition setBoolValue :: "string \<Rightarrow> bool \<Rightarrow> ShaderManager \<Rightarrow> ShaderManager" where
  "setBoolValue name v sh = sh(name \<mapsto> UBool v)"

definition setSampler2DValue :: "string \<Rightarrow> int \<Rightarrow> ShaderManager \<Rightarrow> ShaderManager" where
  "setSampler2DValue name v sh = sh(name \<mapsto> USampler2D v)"

definition g_ModelName :: string where
  "g_ModelName = ''model''"

definition g_TextureValueName :: string where
  "g_TextureValueName = ''objectTexture''"

definition g_UseTextureName :: string where
  "g_UseTextureName = ''bUseTexture''"

subsection \<open>The scene manager's state\<close>

text \<open>
  The handle of a texture is a \<^verbatim>\<open>GLuint\<close>: \<^verbatim>\<open>CreateGLTexture\<close> stores its local
  \<^verbatim>\<open>GLuint textureID\<close> in the field and \<^verbatim>\<open>DestroyGLTextures\<close> passes the field's
  address to \<^verbatim>\<open>glDeleteTextures\<close>. The registry is the 16-element array that the
  constructor initialises, with the count of loaded textures beside it.
\<close>

type_synonym GLuint = "32 word"

record TEXTURE_INFO =
  tag :: string
  ID :: GLuint

record OBJECT_MATERIAL =
  diffuseColor :: vec3
  specularColor :: vec3
  shininess :: real
  mtag :: string

record SceneManager =
  m_pShaderManager :: "ShaderManager option"
  m_textureIDs :: "TEXTURE_INFO list"
  m_loadedTextures :: int
  m_objectMaterials :: "OBJECT_MATERIAL list"

text \<open>Indexing a C++ array outside its bounds is undefined behaviour: an error value.\<close>

datatype error = IndexOutOfBounds

definition SceneManager_new :: "ShaderManager option \<Rightarrow> SceneManager" where
  "SceneManager_new pShaderManager =
     \<lparr> m_pShaderManager = pShaderManager,
       m_textureIDs = replicate 16 \<lparr> tag = ''/0'', ID = - 1 \<rparr>,
       m_loadedTextures = 0,
       m_objectMaterials = [] \<rparr>"

subsection \<open>Texture registry\<close>

text \<open>
  \<^verbatim>\<open>CreateGLTexture\<close>. The image decoder and the GPU are collaborators: \<open>img\<close> is
  \<open>None\<close> when \<^verbatim>\<open>stbi_load\<close> returns null and \<open>Some colorChannels\<close> otherwise, and
  \<open>textureID\<close> is the name \<^verbatim>\<open>glGenTextures\<close> hands out. The result is the returned
  \<^verbatim>\<open>bool\<close> and the new state. The write to \<^verbatim>\<open>m_textureIDs[m_loadedTextures]\<close> has no
  check in the source; the model says when the index is outside the array.
\<close>

definition CreateGLTexture ::
  "int option \<Rightarrow> GLuint \<Rightarrow> string \<Rightarrow> SceneManager \<Rightarrow> error + (bool \<times> SceneManager)" where
  "CreateGLTexture img textureID tg s =
     (case img of
        None \<Rightarrow> Inr (False, s)
      | Some colorChannels \<Rightarrow>
          if colorChannels = 3 \<or> colorChannels = 4 then
            (let i = m_loadedTextures s in
             if 0 \<le> i \<and> i < int (length (m_textureIDs s)) then
               Inr (True,
                 s\<lparr> m_textureIDs := (m_textureIDs s)[nat i := \<lparr> tag = tg, ID = textureID \<rparr>],
                    m_loadedTextures := i + 1 \<rparr>)
             else Inl IndexOutOfBounds)
          else Inr (False, s))"

text \<open>
  A run of \<^verbatim>\<open>CreateGLTexture\<close> calls, as \<^verbatim>\<open>LoadSceneTextures\<close> makes them: each call
  takes the decoder's answer, the generated name and the tag; the returned \<^verbatim>\<open>bool\<close> is
  dropped, as the caller drops it.
\<close>

fun CreateGLTextures ::
  "(int option \<times> GLuint \<times> string) list \<Rightarrow> SceneManager \<Rightarrow> error + SceneManager" where
  "CreateGLTextures [] s = Inr s"
| "CreateGLTextures ((img, textureID, tg) # rest) s =
     (case CreateGLTexture img textureID tg s of
        Inl e \<Rightarrow> Inl e
      | Inr (ok, s') \<Rightarrow> CreateGLTextures rest s')"

text \<open>A call registers a texture when the image decodes with 3 or 4 channels.\<close>

definition load_succeeds :: "(int option \<times> GLuint \<times> string) \<Rightarrow> bool" where
  "load_succeeds call = (fst call = Some 3 \<or> fst call = Some 4)"

text \<open>
  \<^verbatim>\<open>FindTextureID\<close> and \<^verbatim>\<open>FindTextureSlot\<close>: the \<^verbatim>\<open>for\<close> loop from index \<open>i\<close>. The
  handle is returned as \<^verbatim>\<open>int\<close>, which reads the 32 bits as two's complement.
\<close>

function FindTextureID_loop :: "SceneManager \<Rightarrow> string \<Rightarrow> int \<Rightarrow> error + int" where
  "FindTextureID_loop s tg i =
     (if i < m_loadedTextures s then
        (if 0 \<le> i \<and> i < int (length (m_textureIDs s)) then
           (if tag (m_textureIDs s ! nat i) = tg
            then Inr (sint (ID (m_textureIDs s ! nat i)))
            else FindTextureID_loop s tg (i + 1))
         else Inl IndexOutOfBounds)
      else Inr (- 1))"
  by pat_completeness auto
termination
  by (relation "measure (\<lambda>(s, tg, i). nat (m_loadedTextures s - i))") auto

declare FindTextureID_loop.simps [simp del]

definition FindTextureID :: "SceneManager \<Rightarrow> string \<Rightarrow> error + int" where
  "FindTextureID s tg = FindTextureID_loop s tg 0"

function FindTextureSlot_loop :: "SceneManager \<Rightarrow> string \<Rightarrow> int \<Rightarrow> error + int" where
  "FindTextureSlot_loop s tg i =
     (if i < m_loadedTextures s then
        (if 0 \<le> i \<and> i < int (length (m_textureIDs s)) then
           (if tag (m_textureIDs s ! nat i) = tg
            then Inr i
            else FindTextureSlot_loop s tg (i + 1))
         else Inl IndexOutOfBounds)
      else Inr (- 1))"
  by pat_completeness auto
termination
  by (relation "measure (\<lambda>(s, tg, i). nat (m_loadedTextures s - i))") auto

declare FindTextureSlot_loop.simps [simp del]

definition FindTextureSlot :: "SceneManager \<Rightarrow> string \<Rightarrow> error + int" where
  "FindTextureSlot s tg = FindTextureSlot_loop s tg 0"

text \<open>\<^verbatim>\<open>SetShaderTexture\<close>: a negative slot is replaced by slot 0 here, in the caller.\<close>

definition SetShaderTexture :: "string \<Rightarrow> SceneManager \<Rightarrow> error + SceneManager" where
  "SetShaderTexture textureTag s =
     (case m_pShaderManager s of
        None \<Rightarrow> Inr s
      | Some sh \<Rightarrow>
          (case FindTextureSlot s textureTag of
             Inl e \<Rightarrow> Inl e
           | Inr found \<Rightarrow>
               (let textureSlot = (if found < 0 then 0 else found)
                in Inr (s\<lparr> m_pShaderManager :=
                     Some (setSampler2DValue g_TextureValueName textureSlot
                            (setIntValue g_UseTextureName 1 sh)) \<rparr>))))"

text \<open>The entries the lookups scan: the first \<^verbatim>\<open>m_loadedTextures\<close> of the array.\<close>

definition loaded :: "SceneManager \<Rightarrow> TEXTURE_INFO list" where
  "loaded s = take (nat (m_loadedTextures s)) (m_textureIDs s)"

definition registry_ok :: "SceneManager \<Rightarrow> bool" where
  "registry_ok s = (0 \<le> m_loadedTextures s \<and> m_loadedTextures s \<le> int (length (m_textureIDs s)))"

text \<open>
  The state after \<^verbatim>\<open>CreateGLTexture\<close> has registered handle 1 under \<^verbatim>\<open>"wood"\<close> and
  handle 2 under \<^verbatim>\<open>"metal"\<close>, with no shader manager.
\<close>

definition two_textures :: SceneManager where
  "two_textures =
     \<lparr> m_pShaderManager = None,
       m_textureIDs = \<lparr> tag = ''wood'', ID = 1 \<rparr> # \<lparr> tag = ''metal'', ID = 2 \<rparr> #
         replicate 14 \<lparr> tag = ''/0'', ID = - 1 \<rparr>,
       m_loadedTextures = 2,
       m_objectMaterials = [] \<rparr>"

text \<open>The state after handles 1 and 2 have both been registered under \<^verbatim>\<open>"wood"\<close>.\<close>

definition wood_twice :: SceneManager where
  "wood_twice =
     \<lparr> m_pShaderManager = None,
       m_textureIDs = \<lparr> tag = ''wood'', ID = 1 \<rparr> # \<lparr> tag = ''wood'', ID = 2 \<rparr> #
         replicate 14 \<lparr> tag = ''/0'', ID = - 1 \<rparr>,
       m_loadedTextures = 2,
       m_objectMaterials = [] \<rparr>"

text \<open>The state after handle \<open>0xFFFFFFFF\<close> has been registered under \<^verbatim>\<open>"wood"\<close>.\<close>

definition wood_max_handle :: SceneManager where
  "wood_max_handle =
     \<lparr> m_pShaderManager = None,
       m_textureIDs = \<lparr> tag = ''wood'', ID = 0xFFFFFFFF \<rparr> #
         replicate 15 \<lparr> tag = ''/0'', ID = - 1 \<rparr>,
       m_loadedTextures = 1,
       m_objectMaterials = [] \<rparr>"

subsection \<open>Materials\<close>

text \<open>
  \<^verbatim>\<open>DefineObjectMaterials\<close> fills the table with five literal materials. The material's
  \<^verbatim>\<open>tag\<close> field is \<open>mtag\<close> here, as the texture entry has a field of that name.
\<close>

definition DefineObjectMaterials :: "SceneManager \<Rightarrow> SceneManager" where
  "DefineObjectMaterials s =
     (let metal = \<lparr> diffuseColor = Vec3 0.7 0.68 0.6, specularColor = Vec3 0.95 0.92 0.85,
                     shininess = 64, mtag = ''metal'' \<rparr>;
          wood = \<lparr> diffuseColor = Vec3 0.45 0.3 0.15, specularColor = Vec3 0.05 0.05 0.05,
                    shininess = 8, mtag = ''wood'' \<rparr>;
          candle = \<lparr> diffuseColor = Vec3 0.95 0.92 0.85, specularColor = Vec3 0.2 0.2 0.2,
                      shininess = 12, mtag = ''candle'' \<rparr>;
          flame = \<lparr> diffuseColor = Vec3 1.0 0.7 0.25, specularColor = Vec3 0.9 0.6 0.2,
                     shininess = 16, mtag = ''flame'' \<rparr>;
          cement = \<lparr> diffuseColor = Vec3 0.6 0.6 0.6, specularColor = Vec3 0.3 0.3 0.3,
                      shininess = 16, mtag = ''cement'' \<rparr>
      in s\<lparr> m_objectMaterials := [metal, wood, candle, flame, cement] \<rparr>)"

text \<open>
  \<^verbatim>\<open>SetShaderMaterial\<close>. The range-based \<^verbatim>\<open>for\<close> with its \<^verbatim>\<open>break\<close> is
  \<open>find_material\<close>: \<open>Some\<close> is \<^verbatim>\<open>found = true\<close> with the selected entry. The three
  fields of \<^verbatim>\<open>selected\<close> that reach the shader are the result of \<open>selected_material\<close>.
\<close>

fun find_material :: "OBJECT_MATERIAL list \<Rightarrow> string \<Rightarrow> OBJECT_MATERIAL option" where
  "find_material [] materialTag = None"
| "find_material (mat # rest) materialTag =
     (if mtag mat = materialTag then Some mat else find_material rest materialTag)"

definition selected_material :: "OBJECT_MATERIAL list \<Rightarrow> string \<Rightarrow> vec3 \<times> vec3 \<times> real" where
  "selected_material materials materialTag =
     (case find_material materials materialTag of
        Some mat \<Rightarrow> (diffuseColor mat, specularColor mat, shininess mat)
      | None \<Rightarrow> (Vec3 0.8 0.8 0.8, Vec3 0.2 0.2 0.2, 8))"

definition SetShaderMaterial :: "string \<Rightarrow> SceneManager \<Rightarrow> SceneManager" where
  "SetShaderMaterial materialTag s =
     (case m_pShaderManager s of
        None \<Rightarrow> s
      | Some sh \<Rightarrow>
          (case selected_material (m_objectMaterials s) materialTag of
             (diffuse, specular, shine) \<Rightarrow>
               s\<lparr> m_pShaderManager :=
                    Some (setFloatValue ''material.shininess'' shine
                           (setVec3Value ''material.specularColor'' specular
                             (setVec3Value ''material.diffuseColor'' diffuse sh))) \<rparr>))"

subsection \<open>The view manager\<close>

text \<open>
  The \<^verbatim>\<open>Camera\<close> class is declared outside these sources. The record has the five members
  that \<^verbatim>\<open>ViewManager.cpp\<close> reads and writes; whatever else the class holds is the
  record's extension, and its methods \<^verbatim>\<open>ProcessKeyboard\<close> and \<^verbatim>\<open>ProcessMouseMovement\<close>
  are parameters of the functions that call them.
\<close>

record Camera =
  Position :: vec3
  Front :: vec3
  Up :: vec3
  Zoom :: real
  MovementSpeed :: real

datatype Camera_Movement = FORWARD | BACKWARD | LEFT | RIGHT | UP | DOWN

datatype key =
    GLFW_KEY_ESCAPE
  | GLFW_KEY_W | GLFW_KEY_S | GLFW_KEY_A | GLFW_KEY_D
  | GLFW_KEY_Q | GLFW_KEY_E
  | GLFW_KEY_P | GLFW_KEY_O

text \<open>
  The file-scope variables of \<^verbatim>\<open>ViewManager.cpp\<close>, and the window's close flag. A null
  \<^verbatim>\<open>g_pCamera\<close> is \<open>None\<close>; dereferencing it is an error value.
\<close>

record 'a ViewManager =
  g_pCamera :: "'a Camera_scheme option"
  gLastX :: real
  gLastY :: real
  gFirstMouse :: bool
  gDeltaTime :: real
  gLastFrame :: real
  bOrthographicProjection :: bool
  windowShouldClose :: bool

datatype view_error = NullCamera

text \<open>The constructor; \<open>camera\<close> is the object that \<^verbatim>\<open>new Camera()\<close> returns.\<close>

definition ViewManager_new :: "'a Camera_scheme \<Rightarrow> 'a ViewManager" where
  "ViewManager_new camera =
     \<lparr> g_pCamera = Some (camera\<lparr> Position := Vec3 0 9 18, Front := Vec3 0 (- 0.8) (- 3),
                                 Up := Vec3 0 1 0, Zoom := 80, MovementSpeed := 20 \<rparr>),
       gLastX = 1000 / 2, gLastY = 800 / 2, gFirstMouse = True,
       gDeltaTime = 0, gLastFrame = 0,
       bOrthographicProjection = False, windowShouldClose = False \<rparr>"

text \<open>The scroll callback that \<^verbatim>\<open>CreateDisplayWindow\<close> installs.\<close>

definition ScrollCallback :: "real \<Rightarrow> 'a ViewManager \<Rightarrow> 'a ViewManager" where
  "ScrollCallback yoffset v =
     (case g_pCamera v of
        None \<Rightarrow> v
      | Some cam \<Rightarrow>
          (let cam1 = cam\<lparr> MovementSpeed := MovementSpeed cam + yoffset \<rparr>;
               cam2 = (if MovementSpeed cam1 < 1 then cam1\<lparr> MovementSpeed := 1 \<rparr> else cam1);
               cam3 = (if MovementSpeed cam2 > 100 then cam2\<lparr> MovementSpeed := 100 \<rparr> else cam2)
           in v\<lparr> g_pCamera := Some cam3 \<rparr>))"

fun ScrollCallbacks :: "real list \<Rightarrow> 'a ViewManager \<Rightarrow> 'a ViewManager" where
  "ScrollCallbacks [] v = v"
| "ScrollCallbacks (yoffset # rest) v = ScrollCallbacks rest (ScrollCallback yoffset v)"

text \<open>\<^verbatim>\<open>g_pCamera->...\<close>: a method call or member assignment through the pointer.\<close>

definition on_camera ::
  "('a Camera_scheme \<Rightarrow> 'a Camera_scheme) \<Rightarrow> 'a ViewManager \<Rightarrow> view_error + 'a ViewManager" where
  "on_camera f v =
     (case g_pCamera v of
        None \<Rightarrow> Inl NullCamera
      | Some cam \<Rightarrow> Inr (v\<lparr> g_pCamera := Some (f cam) \<rparr>))"

text \<open>\<^verbatim>\<open>if (glfwGetKey(m_pWindow, k) == GLFW_PRESS) { ... }\<close>, after the statements before it.\<close>

definition if_pressed ::
  "key set \<Rightarrow> key \<Rightarrow> ('a ViewManager \<Rightarrow> view_error + 'a ViewManager) \<Rightarrow>
   view_error + 'a ViewManager \<Rightarrow> view_error + 'a ViewManager" where
  "if_pressed keys k body r =
     (case r of
        Inl e \<Rightarrow> Inl e
      | Inr v \<Rightarrow> if k \<in> keys then body v else Inr v)"

text \<open>
  \<^verbatim>\<open>Mouse_Position_Callback\<close>, the free look. \<open>ProcessMouseMovement\<close> is the camera's
  method.
\<close>

definition Mouse_Position_Callback ::
  "(real \<Rightarrow> real \<Rightarrow> 'a Camera_scheme \<Rightarrow> 'a Camera_scheme) \<Rightarrow> real \<Rightarrow> real \<Rightarrow>
   'a ViewManager \<Rightarrow> view_error + 'a ViewManager" where
  "Mouse_Position_Callback ProcessMouseMovement xMousePos yMousePos v =
     (let v1 = (if gFirstMouse v
                then v\<lparr> gLastX := xMousePos, gLastY := yMousePos, gFirstMouse := False \<rparr>
                else v);
          xOffset = xMousePos - gLastX v1;
          yOffset = gLastY v1 - yMousePos;
          v2 = v1\<lparr> gLastX := xMousePos, gLastY := yMousePos \<rparr>
      in on_camera (ProcessMouseMovement xOffset yOffset) v2)"

text \<open>
  \<^verbatim>\<open>ProcessKeyboardEvents\<close>. \<open>keys\<close> is the set of keys that \<^verbatim>\<open>glfwGetKey\<close> reports as
  pressed; \<open>ProcessKeyboard\<close> is the camera's method. The nine \<^verbatim>\<open>if\<close> statements run in
  the source's order.
\<close>

definition ProcessKeyboardEvents ::
  "(Camera_Movement \<Rightarrow> real \<Rightarrow> 'a Camera_scheme \<Rightarrow> 'a Camera_scheme) \<Rightarrow> key set \<Rightarrow>
   'a ViewManager \<Rightarrow> view_error + 'a ViewManager" where
  "ProcessKeyboardEvents ProcessKeyboard keys v =
     (if_pressed keys GLFW_KEY_O
        (\<lambda>v. on_camera
           (\<lambda>cam. cam\<lparr> Position := Vec3 0 5 10,
                        Front := normalize (Vec3 0 (- 0.3) (- 1)),
                        Up := Vec3 0 1 0 \<rparr>)
           (v\<lparr> bOrthographicProjection := True \<rparr>))
     (if_pressed keys GLFW_KEY_P
        (\<lambda>v. on_camera
           (\<lambda>cam. cam\<lparr> Position := Vec3 0 9 18,
                        Front := Vec3 0 (- 0.8) (- 3),
                        Up := Vec3 0 1 0 \<rparr>)
           (v\<lparr> bOrthographicProjection := False \<rparr>))
     (if_pressed keys GLFW_KEY_E (\<lambda>v. on_camera (ProcessKeyboard DOWN (gDeltaTime v)) v)
     (if_pressed keys GLFW_KEY_Q (\<lambda>v. on_camera (ProcessKeyboard UP (gDeltaTime v)) v)
     (if_pressed keys GLFW_KEY_D (\<lambda>v. on_camera (ProcessKeyboard RIGHT (gDeltaTime v)) v)
     (if_pressed keys GLFW_KEY_A (\<lambda>v. on_camera (ProcessKeyboard LEFT (gDeltaTime v)) v)
     (if_pressed keys GLFW_KEY_S (\<lambda>v. on_camera (ProcessKeyboard BACKWARD (gDeltaTime v)) v)
     (if_pressed keys GLFW_KEY_W (\<lambda>v. on_camera (ProcessKeyboard FORWARD (gDeltaTime v)) v)
     (if_pressed keys GLFW_KEY_ESCAPE (\<lambda>v. Inr (v\<lparr> windowShouldClose := True \<rparr>))
        (Inr v))))))))))"

text \<open>
  A camera and its methods for closed examples: the constructor's values with nothing
  else in the class, a \<^verbatim>\<open>ProcessKeyboard\<close> that moves along the front vector, and a
  \<^verbatim>\<open>ProcessMouseMovement\<close> that turns the front vector by the offsets.
\<close>

definition plain_camera :: Camera where
  "plain_camera = \<lparr> Position = Vec3 0 0 0, Front = Vec3 0 0 (- 1), Up = Vec3 0 1 0,
                     Zoom = 45, MovementSpeed = 2.5 \<rparr>"

definition fly :: "Camera_Movement \<Rightarrow> real \<Rightarrow> Camera \<Rightarrow> Camera" where
  "fly direction deltaTime cam =
     cam\<lparr> Position := vec3_add (Position cam) (vec3_scale (Front cam) (MovementSpeed cam * deltaTime)) \<rparr>"

definition turn :: "real \<Rightarrow> real \<Rightarrow> Camera \<Rightarrow> Camera" where
  "turn xoffset yoffset cam =
     cam\<lparr> Front := vec3_add (Front cam) (Vec3 (xoffset / 10) (yoffset / 10) 0) \<rparr>"

text \<open>
  The start of \<^verbatim>\<open>PrepareSceneView\<close>: the frame's delta time from \<^verbatim>\<open>glfwGetTime\<close>, then
  the keyboard. The view and projection matrices it uploads afterwards are left out.
\<close>

definition PrepareSceneView ::
  "(Camera_Movement \<Rightarrow> real \<Rightarrow> 'a Camera_scheme \<Rightarrow> 'a Camera_scheme) \<Rightarrow> real \<Rightarrow> key set \<Rightarrow>
   'a ViewManager \<Rightarrow> view_error + 'a ViewManager" where
  "PrepareSceneView ProcessKeyboard currentFrame keys v =
     ProcessKeyboardEvents ProcessKeyboard keys
       (v\<lparr> gDeltaTime := currentFrame - gLastFrame v, gLastFrame := currentFrame \<rparr>)"

text \<open>
  What the window system and the render loop do to the view manager, one event at a
  time: a frame with the clock's reading and the keys held, a cursor move, a scroll.
\<close>

datatype event = Frame real "key set" | CursorMoved real real | Scrolled real

fun window_events ::
  "(Camera_Movement \<Rightarrow> real \<Rightarrow> 'a Camera_scheme \<Rightarrow> 'a Camera_scheme) \<Rightarrow>
   (real \<Rightarrow> real \<Rightarrow> 'a Camera_scheme \<Rightarrow> 'a Camera_scheme) \<Rightarrow>
   event list \<Rightarrow> 'a ViewManager \<Rightarrow> view_error + 'a ViewManager" where
  "window_events ProcessKeyboard ProcessMouseMovement [] v = Inr v"
| "window_events ProcessKeyboard ProcessMouseMovement (e # es) v =
     (case (case e of
              Frame currentFrame keys \<Rightarrow> PrepareSceneView ProcessKeyboard currentFrame keys v
            | CursorMoved xMousePos yMousePos \<Rightarrow>
                Mouse_Position_Callback ProcessMouseMovement xMousePos yMousePos v
            | Scrolled yoffset \<Rightarrow> Inr (ScrollCallback yoffset v)) of
        Inl err \<Rightarrow> Inl err
      | Inr v' \<Rightarrow> window_events ProcessKeyboard ProcessMouseMovement es v')"

subsection \<open>Transformations\<close>

text \<open>\<^verbatim>\<open>SetTransformations\<close>: the product is built left to right, as C++ evaluates it.\<close>

definition SetTransformations ::
  "vec3 \<Rightarrow> real \<Rightarrow> real \<Rightarrow> real \<Rightarrow> vec3 \<Rightarrow> SceneManager \<Rightarrow> SceneManager" where
  "SetTransformations scaleXYZ XrotationDegrees YrotationDegrees ZrotationDegrees positionXYZ s =
     (let scale = glm_scale scaleXYZ;
          rotationX = glm_rotate (radians XrotationDegrees) (Vec3 1 0 0);
          rotationY = glm_rotate (radians YrotationDegrees) (Vec3 0 1 0);
          rotationZ = glm_rotate (radians ZrotationDegrees) (Vec3 0 0 1);
          translation = glm_translate positionXYZ;
          modelView =
            mat4_mul (mat4_mul (mat4_mul (mat4_mul translation rotationZ) rotationY) rotationX)
              scale
      in case m_pShaderManager s of
           None \<Rightarrow> s
         | Some sh \<Rightarrow> s\<lparr> m_pShaderManager := Some (setMat4Value g_ModelName modelView sh) \<rparr>)"

text \<open>
  The matrices the specification names, by the textbook: the rotations about the
  coordinate axes by an angle in radians, in GLM's column order, and the action of each
  elementary transformation on a point.
\<close>

definition rotateX :: "real \<Rightarrow> mat4" where
  "rotateX a =
     Mat4 (Vec4 1 0 0 0) (Vec4 0 (cos a) (sin a) 0) (Vec4 0 (- sin a) (cos a) 0) (Vec4 0 0 0 1)"

definition rotateY :: "real \<Rightarrow> mat4" where
  "rotateY a =
     Mat4 (Vec4 (cos a) 0 (- sin a) 0) (Vec4 0 1 0 0) (Vec4 (sin a) 0 (cos a) 0) (Vec4 0 0 0 1)"

definition rotateZ :: "real \<Rightarrow> mat4" where
  "rotateZ a =
     Mat4 (Vec4 (cos a) (sin a) 0 0) (Vec4 (- sin a) (cos a) 0 0) (Vec4 0 0 1 0) (Vec4 0 0 0 1)"

fun scale_point :: "vec3 \<Rightarrow> vec3 \<Rightarrow> vec3" where
  "scale_point (Vec3 sx sy sz) (Vec3 x y z) = Vec3 (sx * x) (sy * y) (sz * z)"

fun turn_about_x :: "real \<Rightarrow> vec3 \<Rightarrow> vec3" where
  "turn_about_x a (Vec3 x y z) = Vec3 x (y * cos a - z * sin a) (y * sin a + z * cos a)"

fun turn_about_y :: "real \<Rightarrow> vec3 \<Rightarrow> vec3" where
  "turn_about_y a (Vec3 x y z) = Vec3 (x * cos a + z * sin a) y (z * cos a - x * sin a)"

fun turn_about_z :: "real \<Rightarrow> vec3 \<Rightarrow> vec3" where
  "turn_about_z a (Vec3 x y z) = Vec3 (x * cos a - y * sin a) (x * sin a + y * cos a) z"

fun point4 :: "vec3 \<Rightarrow> vec4" where
  "point4 (Vec3 x y z) = Vec4 x y z 1"

subsection \<open>The candle of \<^verbatim>\<open>RenderScene\<close>\<close>

text \<open>
  A placement is one \<^verbatim>\<open>SetTransformations\<close> call of the scene together with the mesh
  drawn right after it. Texture, colour and material calls do not move anything and are
  left out of the placement.
\<close>

datatype mesh =
    BoxMesh | PlaneMesh | CylinderMesh | ConeMesh | SphereMesh | TaperedCylinderMesh

record placement =
  drawn :: mesh
  scaleXYZ :: vec3
  XrotationDegrees :: real
  YrotationDegrees :: real
  ZrotationDegrees :: real
  positionXYZ :: vec3

definition candleOffset :: vec3 where
  "candleOffset = Vec3 (- 3.5) 0 (- 3)"

text \<open>
  The candle holder and candle, in the source's order: the eight placements and the value
  of \<^verbatim>\<open>currentY\<close> after the wick. Each \<open>currentY = currentY + h\<close> is a \<^verbatim>\<open>currentY += h\<close>
  of the source.
\<close>

definition RenderScene_candle :: "placement list \<times> real" where
  "RenderScene_candle =
     (let currentY = 0;
          base = \<lparr> drawn = TaperedCylinderMesh, scaleXYZ = Vec3 1.6 0.6 1.6,
                   XrotationDegrees = 0, YrotationDegrees = 0, ZrotationDegrees = 0,
                   positionXYZ = vec3_add candleOffset (Vec3 0 currentY 0) \<rparr>;
          currentY = currentY + 0.6;
          stem = \<lparr> drawn = CylinderMesh, scaleXYZ = Vec3 0.3 1.0 0.3,
                   XrotationDegrees = 0, YrotationDegrees = 0, ZrotationDegrees = 0,
                   positionXYZ = vec3_add candleOffset (Vec3 0 currentY 0) \<rparr>;
          currentY = currentY + 1.0;
          sphere = \<lparr> drawn = SphereMesh, scaleXYZ = Vec3 0.45 0.25 0.45,
                   XrotationDegrees = 0, YrotationDegrees = 0, ZrotationDegrees = 0,
                   positionXYZ = vec3_add candleOffset (Vec3 0 currentY 0) \<rparr>;
          currentY = currentY + 0.15;
          upper_stem = \<lparr> drawn = CylinderMesh, scaleXYZ = Vec3 0.3 0.8 0.3,
                   XrotationDegrees = 0, YrotationDegrees = 0, ZrotationDegrees = 0,
                   positionXYZ = vec3_add candleOffset (Vec3 0 currentY 0) \<rparr>;
          currentY = currentY + 0.8;
          cup = \<lparr> drawn = TaperedCylinderMesh, scaleXYZ = Vec3 1.2 1.0 1.2,
                   XrotationDegrees = 180, YrotationDegrees = 0, ZrotationDegrees = 0,
                   positionXYZ = vec3_add candleOffset (Vec3 0 (currentY + 0.7) 0) \<rparr>;
          rim = \<lparr> drawn = CylinderMesh, scaleXYZ = Vec3 1.2 0.2 1.2,
                   XrotationDegrees = 0, YrotationDegrees = 0, ZrotationDegrees = 0,
                   positionXYZ = vec3_add candleOffset (Vec3 0 (currentY + 0.7) 0) \<rparr>;
          currentY = currentY + 1.0;
          candle = \<lparr> drawn = CylinderMesh, scaleXYZ = Vec3 0.9 2.0 0.9,
                   XrotationDegrees = 0, YrotationDegrees = 0, ZrotationDegrees = 0,
                   positionXYZ = vec3_add candleOffset (Vec3 0 (currentY - 0.2) 0) \<rparr>;
          wick = \<lparr> drawn = CylinderMesh, scaleXYZ = Vec3 0.04 0.05 0.04,
                   XrotationDegrees = 0, YrotationDegrees = 0, ZrotationDegrees = 0,
                   positionXYZ = vec3_add candleOffset (Vec3 0 (currentY + 1.8) 0) \<rparr>
      in ([base, stem, sphere, upper_stem, cup, rim, candle, wick], currentY))"

text \<open>The height of each stage above \<open>candleOffset\<close>.\<close>

definition stage_heights :: "real list" where
  "stage_heights = map (\<lambda>p. vy (positionXYZ p) - vy candleOffset) (fst RenderScene_candle)"

text \<open>
  Running vertical offsets over a list of height contributions. \<open>stacked_on\<close> is the
  accumulation in the specification's words: each stage at the previous stage's
  accumulated offset plus its own contribution. \<open>stacked_from\<close> places each stage at the
  offset accumulated before it.
\<close>

fun stacked_on :: "real \<Rightarrow> real list \<Rightarrow> real list" where
  "stacked_on offset [] = []"
| "stacked_on offset (h # hs) = (offset + h) # stacked_on (offset + h) hs"

fun stacked_from :: "real \<Rightarrow> real list \<Rightarrow> real list" where
  "stacked_from offset [] = []"
| "stacked_from offset (h # hs) = offset # stacked_from (offset + h) hs"

subsection \<open>The flame light of \<^verbatim>\<open>RenderScene\<close>\<close>

text \<open>
  \<open>elapsedSeconds\<close> is the reading of the steady clock since the start of the process.
  \<open>RenderScene_flame_light\<close> is the block under \<^verbatim>\<open>if (m_pShaderManager)\<close> that animates
  point light 0.
\<close>

definition flicker :: "real \<Rightarrow> real" where
  "flicker elapsedSeconds =
     0.92 + 0.12 * sin (elapsedSeconds * 12) + 0.03 * sin (elapsedSeconds * 37)"

definition flamePos :: vec3 where
  "flamePos = vec3_add candleOffset (Vec3 0 (snd RenderScene_candle + 2.0) 0)"

definition RenderScene_flame_light :: "real \<Rightarrow> SceneManager \<Rightarrow> SceneManager" where
  "RenderScene_flame_light elapsedSeconds s =
     (case m_pShaderManager s of
        None \<Rightarrow> s
      | Some sh \<Rightarrow>
          (let sh = setVec3Value ''pointLights[0].position'' flamePos sh;
               baseDiffuse = Vec3 0.95 0.60 0.25;
               baseAmbient = Vec3 0.07 0.04 0.02;
               flickerDiffuse = vec3_scale baseDiffuse (flicker elapsedSeconds);
               flickerAmbient = vec3_scale baseAmbient (0.6 + 0.4 * flicker elapsedSeconds);
               sh = setVec3Value ''pointLights[0].diffuse'' flickerDiffuse sh;
               sh = setVec3Value ''pointLights[0].ambient'' flickerAmbient sh;
               sh = setVec3Value ''pointLights[0].specular''
                      (Vec3 (1.0 * flicker elapsedSeconds) (0.8 * flicker elapsedSeconds)
                            (0.5 * flicker elapsedSeconds)) sh;
               sh = setIntValue ''pointLights[0].bActive'' 1 sh
           in s\<lparr> m_pShaderManager := Some sh \<rparr>))"

subsection \<open>The pen of \<^verbatim>\<open>DrawBookSetup\<close>\<close>

text \<open>
  The pen block, with the yaw \<open>rotY\<close> in degrees as a parameter; the source calls it with
  \<open>baseRotationY + 10\<close>. The result holds the block's direction vector, the centre of
  the body, the point \<^verbatim>\<open>front\<close>, the centre of the tip, the body's length (the source's
  \<^verbatim>\<open>length\<close>), the tip's length, and the two placements the block draws: the body and
  the tip.
\<close>

record pen =
  dir :: vec3
  center :: vec3
  front :: vec3
  tipPos :: vec3
  bodyLength :: real
  tipLen :: real
  body :: placement
  tip :: placement



definition baseRotationY :: real where
  "baseRotationY = 4.5"


definition DrawBookSetup_rotY :: real where
  "DrawBookSetup_rotY = baseRotationY + 10.0"



section \<open>Theorems\<close>

lemma registry_ok_new: "registry_ok (SceneManager_new sh)"
  by (simp add: registry_ok_def SceneManager_new_def)

subsection \<open>Texture lookups\<close>

lemma loaded_nth: "registry_ok s \<Longrightarrow> k < nat (m_loadedTextures s) \<Longrightarrow> loaded s ! k = m_textureIDs s ! k"
  by (simp add: loaded_def)

lemma length_loaded: "registry_ok s \<Longrightarrow> length (loaded s) = nat (m_loadedTextures s)"
  by (auto simp: loaded_def registry_ok_def)

lemma FindTextureSlot_loop_absent:
  "registry_ok s \<Longrightarrow> 0 \<le> i \<Longrightarrow>
   (\<forall>k. nat i \<le> k \<and> k < nat (m_loadedTextures s) \<longrightarrow> tag (m_textureIDs s ! k) \<noteq> tg) \<Longrightarrow>
   FindTextureSlot_loop s tg i = Inr (- 1)"
proof (induction s tg i rule: FindTextureSlot_loop.induct)
  case (1 s tg i)
  show ?case
  proof (cases "i < m_loadedTextures s")
    case False
    then show ?thesis by (subst FindTextureSlot_loop.simps) simp
  next
    case True
    with "1.prems" have inb: "0 \<le> i \<and> i < int (length (m_textureIDs s))"
      by (simp add: registry_ok_def)
    from True "1.prems" have ne: "tag (m_textureIDs s ! nat i) \<noteq> tg"
      by auto
    have "FindTextureSlot_loop s tg (i + 1) = Inr (- 1)"
      using "1.IH" [OF True inb ne] "1.prems" by (auto simp: nat_add_distrib)
    with True inb ne show ?thesis
      by (subst FindTextureSlot_loop.simps) simp
  qed
qed

lemma FindTextureSlot_loop_present:
  "registry_ok s \<Longrightarrow> 0 \<le> i \<Longrightarrow> nat i \<le> k \<Longrightarrow> k < nat (m_loadedTextures s) \<Longrightarrow>
   tag (m_textureIDs s ! k) = tg \<Longrightarrow>
   (\<forall>j. nat i \<le> j \<and> j < k \<longrightarrow> tag (m_textureIDs s ! j) \<noteq> tg) \<Longrightarrow>
   FindTextureSlot_loop s tg i = Inr (int k)"
proof (induction s tg i rule: FindTextureSlot_loop.induct)
  case (1 s tg i)
  from "1.prems" have lt: "i < m_loadedTextures s" by linarith
  with "1.prems" have inb: "0 \<le> i \<and> i < int (length (m_textureIDs s))"
    by (simp add: registry_ok_def)
  show ?case
  proof (cases "nat i = k")
    case True
    with "1.prems" lt inb show ?thesis
      by (subst FindTextureSlot_loop.simps) auto
  next
    case False
    with "1.prems" have ne: "tag (m_textureIDs s ! nat i) \<noteq> tg" by auto
    have "FindTextureSlot_loop s tg (i + 1) = Inr (int k)"
      using "1.IH" [OF lt inb ne] "1.prems" False by (auto simp: nat_add_distrib)
    with lt inb ne show ?thesis
      by (subst FindTextureSlot_loop.simps) simp
  qed
qed

lemma FindTextureID_loop_absent:
  "registry_ok s \<Longrightarrow> 0 \<le> i \<Longrightarrow>
   (\<forall>k. nat i \<le> k \<and> k < nat (m_loadedTextures s) \<longrightarrow> tag (m_textureIDs s ! k) \<noteq> tg) \<Longrightarrow>
   FindTextureID_loop s tg i = Inr (- 1)"
proof (induction s tg i rule: FindTextureID_loop.induct)
  case (1 s tg i)
  show ?case
  proof (cases "i < m_loadedTextures s")
    case False
    then show ?thesis by (subst FindTextureID_loop.simps) simp
  next
    case True
    with "1.prems" have inb: "0 \<le> i \<and> i < int (length (m_textureIDs s))"
      by (simp add: registry_ok_def)
    from True "1.prems" have ne: "tag (m_textureIDs s ! nat i) \<noteq> tg"
      by auto
    have "FindTextureID_loop s tg (i + 1) = Inr (- 1)"
      using "1.IH" [OF True inb ne] "1.prems" by (auto simp: nat_add_distrib)
    with True inb ne show ?thesis
      by (subst FindTextureID_loop.simps) simp
  qed
qed

lemma FindTextureID_loop_present:
  "registry_ok s \<Longrightarrow> 0 \<le> i \<Longrightarrow> nat i \<le> k \<Longrightarrow> k < nat (m_loadedTextures s) \<Longrightarrow>
   tag (m_textureIDs s ! k) = tg \<Longrightarrow>
   (\<forall>j. nat i \<le> j \<and> j < k \<longrightarrow> tag (m_textureIDs s ! j) \<noteq> tg) \<Longrightarrow>
   FindTextureID_loop s tg i = Inr (sint (ID (m_textureIDs s ! k)))"
proof (induction s tg i rule: FindTextureID_loop.induct)
  case (1 s tg i)
  from "1.prems" have lt: "i < m_loadedTextures s" by linarith
  with "1.prems" have inb: "0 \<le> i \<and> i < int (length (m_textureIDs s))"
    by (simp add: registry_ok_def)
  show ?case
  proof (cases "nat i = k")
    case True
    with "1.prems" lt inb show ?thesis
      by (subst FindTextureID_loop.simps) auto
  next
    case False
    with "1.prems" have ne: "tag (m_textureIDs s ! nat i) \<noteq> tg" by auto
    have "FindTextureID_loop s tg (i + 1) = Inr (sint (ID (m_textureIDs s ! k)))"
      using "1.IH" [OF lt inb ne] "1.prems" False by (auto simp: nat_add_distrib)
    with lt inb ne show ?thesis
      by (subst FindTextureID_loop.simps) simp
  qed
qed

text \<open>The first entry with a tag, when there is one.\<close>

lemma first_with_tag:
  "tg \<in> tag ` set xs \<Longrightarrow>
   \<exists>k<length xs. tag (xs ! k) = tg \<and> (\<forall>j<k. tag (xs ! j) \<noteq> tg)"
proof -
  assume "tg \<in> tag ` set xs"
  then have "\<exists>k. k < length xs \<and> tag (xs ! k) = tg"
    by (auto simp: in_set_conv_nth)
  then obtain k where k: "k < length xs \<and> tag (xs ! k) = tg"
    and least: "\<forall>j<k. \<not> (j < length xs \<and> tag (xs ! j) = tg)"
    using exists_least_iff [of "\<lambda>k. k < length xs \<and> tag (xs ! k) = tg"] by auto
  then show ?thesis by (intro exI [of _ k]) auto
qed

lemma Find_absent:
  assumes "registry_ok s" "tg \<notin> tag ` set (loaded s)"
  shows "FindTextureSlot s tg = Inr (- 1)" "FindTextureID s tg = Inr (- 1)"
proof -
  have "\<forall>k. k < nat (m_loadedTextures s) \<longrightarrow> tag (m_textureIDs s ! k) \<noteq> tg"
  proof (intro allI impI)
    fix k assume k: "k < nat (m_loadedTextures s)"
    then have "loaded s ! k \<in> set (loaded s)"
      using assms(1) by (simp add: length_loaded)
    with assms(2) have "tag (loaded s ! k) \<noteq> tg" by auto
    then show "tag (m_textureIDs s ! k) \<noteq> tg"
      using k assms(1) by (simp add: loaded_nth)
  qed
  then show "FindTextureSlot s tg = Inr (- 1)" "FindTextureID s tg = Inr (- 1)"
    using assms(1)
    by (simp_all add: FindTextureSlot_def FindTextureID_def FindTextureSlot_loop_absent
        FindTextureID_loop_absent)
qed

lemma Find_first:
  assumes "registry_ok s" "k < length (loaded s)" "tag (loaded s ! k) = tg"
    "\<forall>j<k. tag (loaded s ! j) \<noteq> tg"
  shows "FindTextureSlot s tg = Inr (int k)"
    "FindTextureID s tg = Inr (sint (ID (loaded s ! k)))"
proof -
  from assms have k: "k < nat (m_loadedTextures s)" by (simp add: length_loaded)
  with assms have t: "tag (m_textureIDs s ! k) = tg" by (simp add: loaded_nth)
  have b: "\<forall>j. nat 0 \<le> j \<and> j < k \<longrightarrow> tag (m_textureIDs s ! j) \<noteq> tg"
    using assms k by (auto simp: loaded_nth)
  show "FindTextureSlot s tg = Inr (int k)"
    unfolding FindTextureSlot_def
    by (rule FindTextureSlot_loop_present [OF assms(1) _ _ k t b]) simp_all
  show "FindTextureID s tg = Inr (sint (ID (loaded s ! k)))"
    unfolding FindTextureID_def
    using FindTextureID_loop_present [OF assms(1) _ _ k t b] k assms(1)
    by (simp add: loaded_nth)
qed

subsection \<open>Loading textures\<close>

lemma CreateGLTexture_fail:
  "\<not> load_succeeds (img, h, tg) \<Longrightarrow> CreateGLTexture img h tg s = Inr (False, s)"
  by (auto simp: CreateGLTexture_def load_succeeds_def split: option.splits)

lemma CreateGLTexture_in_bounds:
  "load_succeeds (img, h, tg) \<Longrightarrow> 0 \<le> m_loadedTextures s \<Longrightarrow>
   m_loadedTextures s < int (length (m_textureIDs s)) \<Longrightarrow>
   CreateGLTexture img h tg s =
     Inr (True, s\<lparr> m_textureIDs := (m_textureIDs s)[nat (m_loadedTextures s) := \<lparr> tag = tg, ID = h \<rparr>],
                   m_loadedTextures := m_loadedTextures s + 1 \<rparr>)"
  by (auto simp: CreateGLTexture_def load_succeeds_def Let_def split: option.splits)

lemma CreateGLTexture_out_of_bounds:
  "load_succeeds (img, h, tg) \<Longrightarrow>
   \<not> (0 \<le> m_loadedTextures s \<and> m_loadedTextures s < int (length (m_textureIDs s))) \<Longrightarrow>
   CreateGLTexture img h tg s = Inl IndexOutOfBounds"
  by (auto simp: CreateGLTexture_def load_succeeds_def Let_def split: option.splits)

lemma CreateGLTextures_capacity:
  "0 \<le> m_loadedTextures s \<Longrightarrow> m_loadedTextures s \<le> int (length (m_textureIDs s)) \<Longrightarrow>
   (\<exists>s'. CreateGLTextures calls s = Inr s') \<longleftrightarrow>
   m_loadedTextures s + int (length (filter load_succeeds calls)) \<le> int (length (m_textureIDs s))"
proof (induction calls arbitrary: s)
  case Nil
  then show ?case by simp
next
  case (Cons call calls)
  obtain img h tg where call: "call = (img, h, tg)" by (cases call)
  show ?case
  proof (cases "load_succeeds (img, h, tg)")
    case False
    then show ?thesis
      using Cons.IH [of s] Cons.prems call by (simp add: CreateGLTexture_fail)
  next
    case True
    show ?thesis
    proof (cases "m_loadedTextures s < int (length (m_textureIDs s))")
      case False
      with True Cons.prems call show ?thesis
        by (simp add: CreateGLTexture_out_of_bounds)
    next
      case inb: True
      let ?s' = "s\<lparr> m_textureIDs := (m_textureIDs s)[nat (m_loadedTextures s) := \<lparr> tag = tg, ID = h \<rparr>],
                   m_loadedTextures := m_loadedTextures s + 1 \<rparr>"
      have "(\<exists>s'. CreateGLTextures calls ?s' = Inr s') \<longleftrightarrow>
        m_loadedTextures ?s' + int (length (filter load_succeeds calls)) \<le> int (length (m_textureIDs ?s'))"
        using Cons.prems inb by (intro Cons.IH) simp_all
      with True inb Cons.prems call show ?thesis
        by (simp add: CreateGLTexture_in_bounds add.assoc)
    qed
  qed
qed

lemma error_cases: "(x :: error + 'a) = Inl IndexOutOfBounds \<longleftrightarrow> \<not> (\<exists>y. x = Inr y)"
  by (cases x) (auto intro: error.exhaust)

text \<open>
  C10. \<^verbatim>\<open>CreateGLTexture\<close> has no capacity check. A load whose image decodes with 3
  or 4 channels indexes outside the array exactly when \<^verbatim>\<open>m_loadedTextures\<close> is not
  below the array's length; starting from the constructor's state, a run of loads stays
  inside the 16-element array exactly when at most 16 of them succeed; and the 17th
  successful load indexes past the end.
\<close>

theorem CreateGLTexture_no_capacity_check:
  "(CreateGLTexture (Some c) h tg s = Inl IndexOutOfBounds \<longleftrightarrow>
      (c = 3 \<or> c = 4) \<and>
      \<not> (0 \<le> m_loadedTextures s \<and> m_loadedTextures s < int (length (m_textureIDs s)))) \<and>
   ((\<exists>s'. CreateGLTextures calls (SceneManager_new sh) = Inr s') \<longleftrightarrow>
      length (filter load_succeeds calls) \<le> 16) \<and>
   CreateGLTextures (replicate 17 (Some 3, h, tg)) (SceneManager_new sh) = Inl IndexOutOfBounds"
proof (intro conjI)
  show "CreateGLTexture (Some c) h tg s = Inl IndexOutOfBounds \<longleftrightarrow>
      (c = 3 \<or> c = 4) \<and>
      \<not> (0 \<le> m_loadedTextures s \<and> m_loadedTextures s < int (length (m_textureIDs s)))"
    by (auto simp: CreateGLTexture_def Let_def)
  show cap: "(\<exists>s'. CreateGLTextures calls (SceneManager_new sh) = Inr s') \<longleftrightarrow>
      length (filter load_succeeds calls) \<le> 16" for calls
    using CreateGLTextures_capacity [of "SceneManager_new sh" calls]
    by (simp add: SceneManager_new_def)
  have "length (filter load_succeeds (replicate 17 (Some 3, h, tg))) = 17"
    by (simp add: load_succeeds_def)
  then have "\<not> (\<exists>s'. CreateGLTextures (replicate 17 (Some 3, h, tg)) (SceneManager_new sh) = Inr s')"
    using cap [of "replicate 17 (Some 3, h, tg)"] by simp
  then show "CreateGLTextures (replicate 17 (Some 3, h, tg)) (SceneManager_new sh) = Inl IndexOutOfBounds"
    by (simp add: error_cases)
qed

text \<open>Every state the loads reach keeps the count within the array.\<close>

lemma CreateGLTexture_registry_ok:
  "registry_ok s \<Longrightarrow> CreateGLTexture img h tg s = Inr (ok, s') \<Longrightarrow> registry_ok s'"
  by (auto simp: CreateGLTexture_def registry_ok_def Let_def split: option.splits if_splits)

lemma CreateGLTextures_registry_ok:
  "registry_ok s \<Longrightarrow> CreateGLTextures calls s = Inr s' \<Longrightarrow> registry_ok s'"
proof (induction calls arbitrary: s)
  case Nil
  then show ?case by simp
next
  case (Cons call calls)
  obtain img h tg where call: "call = (img, h, tg)" by (cases call)
  from Cons.prems(2) obtain ok s1 where s1: "CreateGLTexture img h tg s = Inr (ok, s1)"
    and rest: "CreateGLTextures calls s1 = Inr s'"
    unfolding call by (auto split: sum.splits)
  from Cons.prems(1) s1 have "registry_ok s1" by (rule CreateGLTexture_registry_ok)
  then show ?case using rest by (rule Cons.IH)
qed

lemma loads_reach_registry_ok:
  "CreateGLTextures calls (SceneManager_new sh) = Inr s \<Longrightarrow> registry_ok s"
  using registry_ok_new by (rule CreateGLTextures_registry_ok)

lemma CreateGLTexture_loaded:
  fixes tg :: string and h :: GLuint
  assumes "registry_ok s" "m_loadedTextures s < int (length (m_textureIDs s))"
  defines "s' \<equiv> s\<lparr> m_textureIDs := (m_textureIDs s)[nat (m_loadedTextures s) := \<lparr> tag = tg, ID = h \<rparr>],
                   m_loadedTextures := m_loadedTextures s + 1 \<rparr>"
  shows "registry_ok s'" "loaded s' = loaded s @ [\<lparr> tag = tg, ID = h \<rparr>]"
proof -
  from assms(1,2) show "registry_ok s'"
    by (simp add: registry_ok_def s'_def)
  have n: "nat (m_loadedTextures s) < length (m_textureIDs s)" "0 \<le> m_loadedTextures s"
    using assms(1,2) by (auto simp: registry_ok_def)
  have "nat (m_loadedTextures s + 1) = Suc (nat (m_loadedTextures s))"
    using n(2) by simp
  then show "loaded s' = loaded s @ [\<lparr> tag = tg, ID = h \<rparr>]"
    using n(1) by (simp add: loaded_def s'_def take_Suc_conv_app_nth)
qed

text \<open>
  C9, as amended. A successful load while the array has room appends the entry at index
  \<^verbatim>\<open>m_loadedTextures\<close> and nothing is deduplicated. If the tag is already registered,
  both lookups keep resolving to the entry they resolved to before the load: the first
  one loaded wins. Only a tag that was absent resolves to the new entry.
\<close>

theorem first_loaded_wins:
  assumes "registry_ok s" and "m_loadedTextures s < int (length (m_textureIDs s))"
    and "c = 3 \<or> c = 4"
  shows "\<exists>s'. CreateGLTexture (Some c) h tg s = Inr (True, s') \<and>
      m_loadedTextures s' = m_loadedTextures s + 1 \<and>
      loaded s' = loaded s @ [\<lparr> tag = tg, ID = h \<rparr>] \<and>
      (if tg \<in> tag ` set (loaded s)
       then FindTextureSlot s' tg = FindTextureSlot s tg \<and>
            FindTextureID s' tg = FindTextureID s tg
       else FindTextureSlot s' tg = Inr (m_loadedTextures s) \<and>
            FindTextureID s' tg = Inr (sint h))"
proof -
  define s' where "s' = s\<lparr> m_textureIDs := (m_textureIDs s)[nat (m_loadedTextures s) := \<lparr> tag = tg, ID = h \<rparr>],
                   m_loadedTextures := m_loadedTextures s + 1 \<rparr>"
  have ok': "registry_ok s'" and l': "loaded s' = loaded s @ [\<lparr> tag = tg, ID = h \<rparr>]"
    unfolding s'_def using CreateGLTexture_loaded [OF assms(1,2)] by simp_all
  have n0: "0 \<le> m_loadedTextures s" using assms(1) by (simp add: registry_ok_def)
  have run: "CreateGLTexture (Some c) h tg s = Inr (True, s')"
    unfolding s'_def using assms(2,3) n0
    by (intro CreateGLTexture_in_bounds) (auto simp: load_succeeds_def)
  have cnt: "m_loadedTextures s' = m_loadedTextures s + 1"
    by (simp add: s'_def)
  have look: "(if tg \<in> tag ` set (loaded s)
       then FindTextureSlot s' tg = FindTextureSlot s tg \<and>
            FindTextureID s' tg = FindTextureID s tg
       else FindTextureSlot s' tg = Inr (m_loadedTextures s) \<and>
            FindTextureID s' tg = Inr (sint h))"
  proof (cases "tg \<in> tag ` set (loaded s)")
    case True
    then obtain k where k: "k < length (loaded s)" "tag (loaded s ! k) = tg"
      "\<forall>j<k. tag (loaded s ! j) \<noteq> tg"
      using first_with_tag by blast
    have k': "k < length (loaded s')" "tag (loaded s' ! k) = tg"
      "\<forall>j<k. tag (loaded s' ! j) \<noteq> tg"
      using k by (simp_all add: l' nth_append)
    have "loaded s' ! k = loaded s ! k" using k(1) by (simp add: l' nth_append)
    then show ?thesis
      using True Find_first [OF assms(1) k] Find_first [OF ok' k'] by simp
  next
    case False
    let ?k = "length (loaded s)"
    have k': "?k < length (loaded s')" "tag (loaded s' ! ?k) = tg"
      "\<forall>j<?k. tag (loaded s' ! j) \<noteq> tg"
      using False by (auto simp: l' nth_append)
    have "int ?k = m_loadedTextures s"
      using n0 assms(1) by (simp add: length_loaded)
    moreover have "ID (loaded s' ! ?k) = h" by (simp add: l')
    ultimately show ?thesis
      using False Find_first [OF ok' k'] by simp
  qed
  from run cnt l' look show ?thesis by blast
qed


lemma sint_sentinel: "sint (h :: GLuint) = - 1 \<longleftrightarrow> h = 0xFFFFFFFF"
proof -
  have m: "(0xFFFFFFFF :: GLuint) = - 1" by simp
  show ?thesis
    unfolding m
  proof
    assume "sint h = - 1"
    then have "sint h = sint (- 1 :: GLuint)" by simp
    then show "h = - 1" by (rule signed_word_eqI)
  next
    assume "h = - 1"
    then show "sint h = - 1" by simp
  qed
qed

text \<open>
  C9 as stated fails: after loading handle 1 and then handle 2 under the same tag, the
  lookups resolve to handle 1 in slot 0, not to the most recently registered entry.
\<close>

theorem duplicate_tag_counterexample:
  "CreateGLTextures [(Some 3, 1, ''wood''), (Some 4, 2, ''wood'')] (SceneManager_new None) =
     Inr wood_twice \<and>
   FindTextureID wood_twice ''wood'' = Inr 1 \<and> FindTextureSlot wood_twice ''wood'' = Inr 0 \<and>
   FindTextureID wood_twice ''wood'' \<noteq> Inr 2 \<and> FindTextureSlot wood_twice ''wood'' \<noteq> Inr 1"
  by (simp add: CreateGLTexture_def SceneManager_new_def FindTextureID_def FindTextureSlot_def
      FindTextureID_loop.simps FindTextureSlot_loop.simps wood_twice_def eval_nat_numeral)

lemma FindTextureSlot_loop_shader:
  "FindTextureSlot_loop (s\<lparr> m_pShaderManager := x \<rparr>) tg i = FindTextureSlot_loop s tg i"
proof (induction s tg i rule: FindTextureSlot_loop.induct)
  case (1 s tg i)
  then show ?case
    by (simp add: FindTextureSlot_loop.simps [of "s\<lparr> m_pShaderManager := x \<rparr>" tg i]
        FindTextureSlot_loop.simps [of s tg i])
qed

lemma SetShaderTexture_found:
  "FindTextureSlot s tg = Inr k \<Longrightarrow>
   SetShaderTexture tg (s\<lparr> m_pShaderManager := Some sh \<rparr>) =
     Inr (s\<lparr> m_pShaderManager := Some (sh(g_UseTextureName \<mapsto> UInt 1,
            g_TextureValueName \<mapsto> USampler2D (if k < 0 then 0 else k))) \<rparr>)"
proof -
  assume "FindTextureSlot s tg = Inr k"
  then have "FindTextureSlot (s\<lparr> m_pShaderManager := Some sh \<rparr>) tg = Inr k"
    by (simp add: FindTextureSlot_def FindTextureSlot_loop_shader)
  then show ?thesis
    by (simp add: SetShaderTexture_def setSampler2DValue_def setIntValue_def)
qed

text \<open>
  C8, as amended. In a state whose count is within the array, as every state the loads
  reach is, both lookups scan the loaded entries in order and answer with the first
  entry that carries the tag; for an absent tag both return \<open>-1\<close>. A found slot is an
  index, never negative, so \<open>-1\<close> is distinct from every valid slot, slot 0 included, and
  the fallback to slot 0 is made by \<^verbatim>\<open>SetShaderTexture\<close> alone. A found handle is returned
  as \<open>-1\<close> exactly when it is \<open>0xFFFFFFFF\<close>.
\<close>

theorem lookup_sentinels:
  assumes "registry_ok s"
  shows "if tg \<in> tag ` set (loaded s)
    then \<exists>k<length (loaded s). tag (loaded s ! k) = tg \<and> (\<forall>j<k. tag (loaded s ! j) \<noteq> tg) \<and>
      FindTextureSlot s tg = Inr (int k) \<and>
      FindTextureID s tg = Inr (sint (ID (loaded s ! k))) \<and>
      (FindTextureID s tg = Inr (- 1) \<longleftrightarrow> ID (loaded s ! k) = 0xFFFFFFFF) \<and>
      SetShaderTexture tg (s\<lparr> m_pShaderManager := Some sh \<rparr>) =
        Inr (s\<lparr> m_pShaderManager := Some (sh(g_UseTextureName \<mapsto> UInt 1,
               g_TextureValueName \<mapsto> USampler2D (int k))) \<rparr>)
    else FindTextureSlot s tg = Inr (- 1) \<and> FindTextureID s tg = Inr (- 1) \<and>
      SetShaderTexture tg (s\<lparr> m_pShaderManager := Some sh \<rparr>) =
        Inr (s\<lparr> m_pShaderManager := Some (sh(g_UseTextureName \<mapsto> UInt 1,
               g_TextureValueName \<mapsto> USampler2D 0)) \<rparr>)"
proof (cases "tg \<in> tag ` set (loaded s)")
  case True
  then obtain k where k: "k < length (loaded s)" "tag (loaded s ! k) = tg"
    "\<forall>j<k. tag (loaded s ! j) \<noteq> tg"
    using first_with_tag by blast
  note f = Find_first [OF assms k]
  have "SetShaderTexture tg (s\<lparr> m_pShaderManager := Some sh \<rparr>) =
        Inr (s\<lparr> m_pShaderManager := Some (sh(g_UseTextureName \<mapsto> UInt 1,
               g_TextureValueName \<mapsto> USampler2D (int k))) \<rparr>)"
    using SetShaderTexture_found [OF f(1), of sh] by simp
  with True k f show ?thesis
    by (auto simp: sint_sentinel)
next
  case False
  note f = Find_absent [OF assms False]
  have "SetShaderTexture tg (s\<lparr> m_pShaderManager := Some sh \<rparr>) =
        Inr (s\<lparr> m_pShaderManager := Some (sh(g_UseTextureName \<mapsto> UInt 1,
               g_TextureValueName \<mapsto> USampler2D 0)) \<rparr>)"
    using SetShaderTexture_found [OF f(1), of sh] by simp
  with False f show ?thesis by simp
qed


lemma two_textures_reached:
  "CreateGLTextures [(Some 3, 1, ''wood''), (Some 3, 2, ''metal'')] (SceneManager_new None) = Inr two_textures"
  by (simp add: CreateGLTexture_def SceneManager_new_def two_textures_def eval_nat_numeral)

theorem first_loaded_wins_witness:
  "registry_ok two_textures \<and>
   m_loadedTextures two_textures < int (length (m_textureIDs two_textures)) \<and>
   ''wood'' \<in> tag ` set (loaded two_textures) \<and>
   (\<exists>s'. CreateGLTexture (Some 3) 9 ''wood'' two_textures = Inr (True, s') \<and>
      m_loadedTextures s' = 3 \<and>
      FindTextureSlot s' ''wood'' = Inr 0 \<and> FindTextureID s' ''wood'' = Inr 1)"
proof -
  have ok: "registry_ok two_textures"
    by (simp add: registry_ok_def two_textures_def)
  have room: "m_loadedTextures two_textures < int (length (m_textureIDs two_textures))"
    by (simp add: two_textures_def)
  have dup: "''wood'' \<in> tag ` set (loaded two_textures)"
    by (simp add: loaded_def two_textures_def)
  have old: "FindTextureSlot two_textures ''wood'' = Inr 0"
    "FindTextureID two_textures ''wood'' = Inr 1"
    by (simp_all add: FindTextureSlot_def FindTextureSlot_loop.simps FindTextureID_def
        FindTextureID_loop.simps two_textures_def)
  have n: "m_loadedTextures two_textures = 2"
    by (simp add: two_textures_def)
  show ?thesis
    using first_loaded_wins [OF ok room, of 3 9 "''wood''"] ok room dup old n by auto
qed

theorem lookup_sentinels_witness:
  "registry_ok two_textures \<and>
   FindTextureSlot two_textures ''metal'' = Inr 1 \<and>
   FindTextureID two_textures ''metal'' = Inr 2 \<and>
   FindTextureSlot two_textures ''cloth'' = Inr (- 1) \<and>
   FindTextureID two_textures ''cloth'' = Inr (- 1) \<and>
   SetShaderTexture ''cloth'' (two_textures\<lparr> m_pShaderManager := Some Map.empty \<rparr>) =
     Inr (two_textures\<lparr> m_pShaderManager :=
       Some [g_UseTextureName \<mapsto> UInt 1, g_TextureValueName \<mapsto> USampler2D 0] \<rparr>)"
proof -
  have ok: "registry_ok two_textures"
    by (simp add: registry_ok_def two_textures_def)
  have l: "loaded two_textures = [\<lparr> tag = ''wood'', ID = 1 \<rparr>, \<lparr> tag = ''metal'', ID = 2 \<rparr>]"
    by (simp add: loaded_def two_textures_def)
  have a: "FindTextureSlot two_textures ''metal'' = Inr 1 \<and>
   FindTextureID two_textures ''metal'' = Inr 2"
    using lookup_sentinels [OF ok, of "''metal''" Map.empty]
    by (auto simp: l less_Suc_eq)
  have b: "FindTextureSlot two_textures ''cloth'' = Inr (- 1) \<and>
   FindTextureID two_textures ''cloth'' = Inr (- 1) \<and>
   SetShaderTexture ''cloth'' (two_textures\<lparr> m_pShaderManager := Some Map.empty \<rparr>) =
     Inr (two_textures\<lparr> m_pShaderManager :=
       Some [g_UseTextureName \<mapsto> UInt 1, g_TextureValueName \<mapsto> USampler2D 0] \<rparr>)"
    using lookup_sentinels [OF ok, of "''cloth''" Map.empty]
    by (simp add: l)
  from ok a b show ?thesis by simp
qed

text \<open>
  C8 as stated fails for \<^verbatim>\<open>FindTextureID\<close>: a texture registered with handle
  \<open>0xFFFFFFFF\<close> is found and returned as \<open>-1\<close>, the answer for an absent tag.
\<close>

theorem handle_sentinel_counterexample:
  "CreateGLTexture (Some 3) 0xFFFFFFFF ''wood'' (SceneManager_new None) =
     Inr (True, wood_max_handle) \<and>
   ''wood'' \<in> tag ` set (loaded wood_max_handle) \<and>
   ''cloth'' \<notin> tag ` set (loaded wood_max_handle) \<and>
   FindTextureID wood_max_handle ''wood'' = Inr (- 1) \<and>
   FindTextureID wood_max_handle ''cloth'' = Inr (- 1)"
  by (simp add: CreateGLTexture_def SceneManager_new_def FindTextureID_def
      FindTextureID_loop.simps loaded_def wood_max_handle_def eval_nat_numeral)

subsection \<open>Material lookup\<close>

lemma find_material_None:
  "find_material ms t = None \<longleftrightarrow> t \<notin> mtag ` set ms"
  by (induction ms) auto

lemma find_material_first:
  "k < length ms \<Longrightarrow> mtag (ms ! k) = t \<Longrightarrow> (\<forall>j<k. mtag (ms ! j) \<noteq> t) \<Longrightarrow>
   find_material ms t = Some (ms ! k)"
proof (induction ms arbitrary: k)
  case Nil
  then show ?case by simp
next
  case (Cons m ms)
  show ?case
  proof (cases k)
    case 0
    with Cons.prems show ?thesis by simp
  next
    case (Suc k')
    with Cons.prems have "mtag m \<noteq> t" by auto
    moreover have "find_material ms t = Some (ms ! k')"
      using Cons.prems Suc by (intro Cons.IH) auto
    ultimately show ?thesis using Suc by simp
  qed
qed

lemma first_with_mtag:
  "t \<in> mtag ` set xs \<Longrightarrow>
   \<exists>k<length xs. mtag (xs ! k) = t \<and> (\<forall>j<k. mtag (xs ! j) \<noteq> t)"
proof -
  assume "t \<in> mtag ` set xs"
  then have "\<exists>k. k < length xs \<and> mtag (xs ! k) = t"
    by (auto simp: in_set_conv_nth)
  then obtain k where k: "k < length xs \<and> mtag (xs ! k) = t"
    and least: "\<forall>j<k. \<not> (j < length xs \<and> mtag (xs ! j) = t)"
    using exists_least_iff [of "\<lambda>k. k < length xs \<and> mtag (xs ! k) = t"] by auto
  then show ?thesis by (intro exI [of _ k]) auto
qed

text \<open>
  C6. The lookup is total. When no entry of the table carries the tag, the selected
  material is the default: diffuse (0.8, 0.8, 0.8), specular (0.2, 0.2, 0.2), shininess 8.
  Otherwise it is the first entry with the tag, with its three coefficients unchanged.
  With a shader manager these three values are what \<^verbatim>\<open>SetShaderMaterial\<close> writes; without
  one the call changes nothing.
\<close>

theorem material_lookup_total:
  "(if materialTag \<in> mtag ` set (m_objectMaterials s)
    then \<exists>k<length (m_objectMaterials s).
      mtag (m_objectMaterials s ! k) = materialTag \<and>
      (\<forall>j<k. mtag (m_objectMaterials s ! j) \<noteq> materialTag) \<and>
      selected_material (m_objectMaterials s) materialTag =
        (diffuseColor (m_objectMaterials s ! k), specularColor (m_objectMaterials s ! k),
         shininess (m_objectMaterials s ! k))
    else selected_material (m_objectMaterials s) materialTag =
        (Vec3 0.8 0.8 0.8, Vec3 0.2 0.2 0.2, 8)) \<and>
   (\<exists>diffuse specular shine.
      selected_material (m_objectMaterials s) materialTag = (diffuse, specular, shine) \<and>
      SetShaderMaterial materialTag (s\<lparr> m_pShaderManager := Some sh \<rparr>) =
        s\<lparr> m_pShaderManager := Some (sh(''material.diffuseColor'' \<mapsto> UVec3 diffuse,
             ''material.specularColor'' \<mapsto> UVec3 specular,
             ''material.shininess'' \<mapsto> UFloat shine)) \<rparr>) \<and>
   SetShaderMaterial materialTag (s\<lparr> m_pShaderManager := None \<rparr>) = s\<lparr> m_pShaderManager := None \<rparr>"
proof (intro conjI)
  show "if materialTag \<in> mtag ` set (m_objectMaterials s)
    then \<exists>k<length (m_objectMaterials s).
      mtag (m_objectMaterials s ! k) = materialTag \<and>
      (\<forall>j<k. mtag (m_objectMaterials s ! j) \<noteq> materialTag) \<and>
      selected_material (m_objectMaterials s) materialTag =
        (diffuseColor (m_objectMaterials s ! k), specularColor (m_objectMaterials s ! k),
         shininess (m_objectMaterials s ! k))
    else selected_material (m_objectMaterials s) materialTag =
        (Vec3 0.8 0.8 0.8, Vec3 0.2 0.2 0.2, 8)"
  proof (cases "materialTag \<in> mtag ` set (m_objectMaterials s)")
    case True
    then obtain k where k: "k < length (m_objectMaterials s)"
      "mtag (m_objectMaterials s ! k) = materialTag"
      "\<forall>j<k. mtag (m_objectMaterials s ! j) \<noteq> materialTag"
      using first_with_mtag by blast
    then have "find_material (m_objectMaterials s) materialTag = Some (m_objectMaterials s ! k)"
      by (rule find_material_first)
    with True k show ?thesis
      by (auto simp: selected_material_def)
  next
    case False
    then have "find_material (m_objectMaterials s) materialTag = None"
      by (simp add: find_material_None)
    with False show ?thesis
      by (simp add: selected_material_def)
  qed
  show "\<exists>diffuse specular shine.
      selected_material (m_objectMaterials s) materialTag = (diffuse, specular, shine) \<and>
      SetShaderMaterial materialTag (s\<lparr> m_pShaderManager := Some sh \<rparr>) =
        s\<lparr> m_pShaderManager := Some (sh(''material.diffuseColor'' \<mapsto> UVec3 diffuse,
             ''material.specularColor'' \<mapsto> UVec3 specular,
             ''material.shininess'' \<mapsto> UFloat shine)) \<rparr>"
    by (cases "selected_material (m_objectMaterials s) materialTag")
      (simp add: SetShaderMaterial_def setFloatValue_def setVec3Value_def)
  show "SetShaderMaterial materialTag (s\<lparr> m_pShaderManager := None \<rparr>) = s\<lparr> m_pShaderManager := None \<rparr>"
    by (simp add: SetShaderMaterial_def)
qed

theorem material_lookup_total_witness:
  "selected_material (m_objectMaterials (DefineObjectMaterials (SceneManager_new None))) ''wood'' =
     (Vec3 0.45 0.3 0.15, Vec3 0.05 0.05 0.05, 8) \<and>
   selected_material (m_objectMaterials (DefineObjectMaterials (SceneManager_new None))) ''glass'' =
     (Vec3 0.8 0.8 0.8, Vec3 0.2 0.2 0.2, 8)"
proof -
  let ?s = "DefineObjectMaterials (SceneManager_new None)"
  have m: "m_objectMaterials ?s =
    [\<lparr> diffuseColor = Vec3 0.7 0.68 0.6, specularColor = Vec3 0.95 0.92 0.85,
                     shininess = 64, mtag = ''metal'' \<rparr>,
     \<lparr> diffuseColor = Vec3 0.45 0.3 0.15, specularColor = Vec3 0.05 0.05 0.05,
                    shininess = 8, mtag = ''wood'' \<rparr>,
     \<lparr> diffuseColor = Vec3 0.95 0.92 0.85, specularColor = Vec3 0.2 0.2 0.2,
                      shininess = 12, mtag = ''candle'' \<rparr>,
     \<lparr> diffuseColor = Vec3 1.0 0.7 0.25, specularColor = Vec3 0.9 0.6 0.2,
                     shininess = 16, mtag = ''flame'' \<rparr>,
     \<lparr> diffuseColor = Vec3 0.6 0.6 0.6, specularColor = Vec3 0.3 0.3 0.3,
                      shininess = 16, mtag = ''cement'' \<rparr>]"
    by (simp add: DefineObjectMaterials_def)
  have a: "selected_material (m_objectMaterials ?s) ''wood'' =
     (Vec3 0.45 0.3 0.15, Vec3 0.05 0.05 0.05, 8)"
    using material_lookup_total [of "''wood''" ?s Map.empty]
    by (auto simp: m less_Suc_eq)
  have b: "selected_material (m_objectMaterials ?s) ''glass'' =
     (Vec3 0.8 0.8 0.8, Vec3 0.2 0.2 0.2, 8)"
    using material_lookup_total [of "''glass''" ?s Map.empty]
    by (simp add: m)
  from a b show ?thesis by simp
qed

subsection \<open>Scroll speed and projection modes\<close>

lemma ScrollCallback_speed:
  "\<exists>cam'. ScrollCallback yoffset (v\<lparr> g_pCamera := Some cam \<rparr>) = v\<lparr> g_pCamera := Some cam' \<rparr> \<and>
     MovementSpeed cam' = min 100 (max 1 (MovementSpeed cam + yoffset))"
  by (auto simp: ScrollCallback_def Let_def)

lemma ScrollCallbacks_camera:
  "g_pCamera v = Some cam \<Longrightarrow> 1 \<le> MovementSpeed cam \<Longrightarrow> MovementSpeed cam \<le> 100 \<Longrightarrow>
   \<exists>cam'. g_pCamera (ScrollCallbacks yoffsets v) = Some cam' \<and>
     1 \<le> MovementSpeed cam' \<and> MovementSpeed cam' \<le> 100"
proof (induction yoffsets arbitrary: v cam)
  case Nil
  then show ?case by simp
next
  case (Cons y ys)
  have v: "v = v\<lparr> g_pCamera := Some cam \<rparr>" using Cons.prems(1) by simp
  obtain cam1 where c: "ScrollCallback y (v\<lparr> g_pCamera := Some cam \<rparr>) = v\<lparr> g_pCamera := Some cam1 \<rparr>"
    "MovementSpeed cam1 = min 100 (max 1 (MovementSpeed cam + y))"
    using ScrollCallback_speed by blast
  have "\<exists>cam'. g_pCamera (ScrollCallbacks ys (v\<lparr> g_pCamera := Some cam1 \<rparr>)) = Some cam' \<and>
     1 \<le> MovementSpeed cam' \<and> MovementSpeed cam' \<le> 100"
    by (rule Cons.IH [of _ cam1]) (simp_all add: c(2))
  with c(1) v show ?case by (metis ScrollCallbacks.simps(2))
qed

lemma ScrollCallbacks_snoc:
  "ScrollCallbacks (yoffsets @ [yoffset]) v = ScrollCallback yoffset (ScrollCallbacks yoffsets v)"
  by (induction yoffsets arbitrary: v) simp_all

lemma ScrollCallbacks_keeps_camera:
  "g_pCamera v = Some cam \<Longrightarrow> \<exists>cam'. g_pCamera (ScrollCallbacks yoffsets v) = Some cam'"
proof (induction yoffsets arbitrary: v cam)
  case Nil
  then show ?case by simp
next
  case (Cons y ys)
  then show ?case
    by (auto simp: ScrollCallback_def Let_def)
qed

text \<open>
  C7. One scroll event adds its y-offset to \<^verbatim>\<open>MovementSpeed\<close> and clamps the sum to
  [1, 100]. After any sequence of scroll events from the constructor's state, and after
  any sequence with at least one event from any camera, the speed is within [1, 100].
\<close>

theorem scroll_speed_clamped:
  "(\<exists>cam'. ScrollCallback yoffset (v\<lparr> g_pCamera := Some cam \<rparr>) = v\<lparr> g_pCamera := Some cam' \<rparr> \<and>
      MovementSpeed cam' = min 100 (max 1 (MovementSpeed cam + yoffset)) \<and>
      1 \<le> MovementSpeed cam' \<and> MovementSpeed cam' \<le> 100) \<and>
   (\<exists>cam'. g_pCamera (ScrollCallbacks yoffsets (ViewManager_new camera)) = Some cam' \<and>
      1 \<le> MovementSpeed cam' \<and> MovementSpeed cam' \<le> 100) \<and>
   (\<exists>cam'. g_pCamera (ScrollCallbacks (yoffsets @ [yoffset]) (v\<lparr> g_pCamera := Some cam \<rparr>)) = Some cam' \<and>
      1 \<le> MovementSpeed cam' \<and> MovementSpeed cam' \<le> 100)"
proof (intro conjI)
  show one: "\<exists>cam'. ScrollCallback yoffset (v\<lparr> g_pCamera := Some cam \<rparr>) = v\<lparr> g_pCamera := Some cam' \<rparr> \<and>
      MovementSpeed cam' = min 100 (max 1 (MovementSpeed cam + yoffset)) \<and>
      1 \<le> MovementSpeed cam' \<and> MovementSpeed cam' \<le> 100" for v :: "'a ViewManager" and cam
    using ScrollCallback_speed [where yoffset = yoffset and v = v and cam = cam] by auto
  show "\<exists>cam'. g_pCamera (ScrollCallbacks yoffsets (ViewManager_new camera)) = Some cam' \<and>
      1 \<le> MovementSpeed cam' \<and> MovementSpeed cam' \<le> 100"
    by (rule ScrollCallbacks_camera [where cam = "camera\<lparr> Position := Vec3 0 9 18,
          Front := Vec3 0 (- 0.8) (- 3), Up := Vec3 0 1 0, Zoom := 80, MovementSpeed := 20 \<rparr>"])
      (simp_all add: ViewManager_new_def)
  obtain cam1 where c1: "g_pCamera (ScrollCallbacks yoffsets (v\<lparr> g_pCamera := Some cam \<rparr>)) = Some cam1"
    using ScrollCallbacks_keeps_camera [where v = "v\<lparr> g_pCamera := Some cam \<rparr>" and cam = cam] by auto
  let ?w = "ScrollCallbacks yoffsets (v\<lparr> g_pCamera := Some cam \<rparr>)"
  have w: "?w = ?w\<lparr> g_pCamera := Some cam1 \<rparr>" using c1 by simp
  obtain cam2 where "ScrollCallback yoffset (?w\<lparr> g_pCamera := Some cam1 \<rparr>) = ?w\<lparr> g_pCamera := Some cam2 \<rparr>"
    "1 \<le> MovementSpeed cam2" "MovementSpeed cam2 \<le> 100"
    using one [where v = ?w and cam = cam1] by blast
  with w have "g_pCamera (ScrollCallback yoffset ?w) = Some cam2 \<and>
      1 \<le> MovementSpeed cam2 \<and> MovementSpeed cam2 \<le> 100"
    by (metis (no_types, lifting) ViewManager.select_convs(1) ViewManager.surjective ViewManager.update_convs(1))
  then show "\<exists>cam'. g_pCamera (ScrollCallbacks (yoffsets @ [yoffset]) (v\<lparr> g_pCamera := Some cam \<rparr>)) = Some cam' \<and>
      1 \<le> MovementSpeed cam' \<and> MovementSpeed cam' \<le> 100"
    by (auto simp: ScrollCallbacks_snoc)
qed


lemma if_pressed_on_camera:
  assumes "\<exists>w c. r = Inr w \<and> g_pCamera w = Some c"
  shows "\<exists>w c. if_pressed keys k (\<lambda>v. on_camera (f v) v) r = Inr w \<and> g_pCamera w = Some c"
  using assms by (auto simp: if_pressed_def on_camera_def)

lemma movement_keys_keep_camera:
  assumes "g_pCamera v = Some cam"
  shows "\<exists>w c.
     (if_pressed keys GLFW_KEY_E (\<lambda>v. on_camera (ProcessKeyboard DOWN (gDeltaTime v)) v)
     (if_pressed keys GLFW_KEY_Q (\<lambda>v. on_camera (ProcessKeyboard UP (gDeltaTime v)) v)
     (if_pressed keys GLFW_KEY_D (\<lambda>v. on_camera (ProcessKeyboard RIGHT (gDeltaTime v)) v)
     (if_pressed keys GLFW_KEY_A (\<lambda>v. on_camera (ProcessKeyboard LEFT (gDeltaTime v)) v)
     (if_pressed keys GLFW_KEY_S (\<lambda>v. on_camera (ProcessKeyboard BACKWARD (gDeltaTime v)) v)
     (if_pressed keys GLFW_KEY_W (\<lambda>v. on_camera (ProcessKeyboard FORWARD (gDeltaTime v)) v)
     (if_pressed keys GLFW_KEY_ESCAPE (\<lambda>v. Inr (v\<lparr> windowShouldClose := True \<rparr>))
        (Inr v)))))))) = Inr w \<and> g_pCamera w = Some c"
proof -
  have "\<exists>w c. if_pressed keys GLFW_KEY_ESCAPE (\<lambda>v. Inr (v\<lparr> windowShouldClose := True \<rparr>)) (Inr v) = Inr w \<and>
      g_pCamera w = Some c"
    using assms by (simp add: if_pressed_def)
  then show ?thesis
    by (intro if_pressed_on_camera)
qed

lemma mode_keys_any_state:
  assumes "g_pCamera v = Some cam" and "GLFW_KEY_P \<in> keys"
  shows "\<exists>v' cam'. ProcessKeyboardEvents ProcessKeyboard keys v = Inr v' \<and>
     g_pCamera v' = Some cam' \<and>
     (if GLFW_KEY_O \<in> keys
      then Position cam' = Vec3 0 5 10 \<and> Front cam' = normalize (Vec3 0 (- 0.3) (- 1)) \<and>
           Up cam' = Vec3 0 1 0 \<and> bOrthographicProjection v' = True
      else Position cam' = Vec3 0 9 18 \<and> Front cam' = Vec3 0 (- 0.8) (- 3) \<and>
           Up cam' = Vec3 0 1 0 \<and> bOrthographicProjection v' = False)"
proof -
  obtain w c where w: "(if_pressed keys GLFW_KEY_E (\<lambda>v. on_camera (ProcessKeyboard DOWN (gDeltaTime v)) v)
     (if_pressed keys GLFW_KEY_Q (\<lambda>v. on_camera (ProcessKeyboard UP (gDeltaTime v)) v)
     (if_pressed keys GLFW_KEY_D (\<lambda>v. on_camera (ProcessKeyboard RIGHT (gDeltaTime v)) v)
     (if_pressed keys GLFW_KEY_A (\<lambda>v. on_camera (ProcessKeyboard LEFT (gDeltaTime v)) v)
     (if_pressed keys GLFW_KEY_S (\<lambda>v. on_camera (ProcessKeyboard BACKWARD (gDeltaTime v)) v)
     (if_pressed keys GLFW_KEY_W (\<lambda>v. on_camera (ProcessKeyboard FORWARD (gDeltaTime v)) v)
     (if_pressed keys GLFW_KEY_ESCAPE (\<lambda>v. Inr (v\<lparr> windowShouldClose := True \<rparr>))
        (Inr v)))))))) = Inr w" and c: "g_pCamera w = Some c"
    using movement_keys_keep_camera [OF assms(1)] by blast
  show ?thesis
    unfolding ProcessKeyboardEvents_def w
    using c assms(2) by (simp add: if_pressed_def on_camera_def)
qed

lemma ProcessKeyboardEvents_keeps_camera:
  assumes "g_pCamera v = Some cam"
  shows "\<exists>v' cam'. ProcessKeyboardEvents ProcessKeyboard keys v = Inr v' \<and> g_pCamera v' = Some cam'"
proof -
  obtain w c where w: "(if_pressed keys GLFW_KEY_E (\<lambda>v. on_camera (ProcessKeyboard DOWN (gDeltaTime v)) v)
     (if_pressed keys GLFW_KEY_Q (\<lambda>v. on_camera (ProcessKeyboard UP (gDeltaTime v)) v)
     (if_pressed keys GLFW_KEY_D (\<lambda>v. on_camera (ProcessKeyboard RIGHT (gDeltaTime v)) v)
     (if_pressed keys GLFW_KEY_A (\<lambda>v. on_camera (ProcessKeyboard LEFT (gDeltaTime v)) v)
     (if_pressed keys GLFW_KEY_S (\<lambda>v. on_camera (ProcessKeyboard BACKWARD (gDeltaTime v)) v)
     (if_pressed keys GLFW_KEY_W (\<lambda>v. on_camera (ProcessKeyboard FORWARD (gDeltaTime v)) v)
     (if_pressed keys GLFW_KEY_ESCAPE (\<lambda>v. Inr (v\<lparr> windowShouldClose := True \<rparr>))
        (Inr v)))))))) = Inr w" and c: "g_pCamera w = Some c"
    using movement_keys_keep_camera [OF assms] by blast
  show ?thesis
    unfolding ProcessKeyboardEvents_def w
    using c by (simp add: if_pressed_def on_camera_def)
qed

lemma window_events_keep_camera:
  "g_pCamera v = Some cam \<Longrightarrow>
   \<exists>v' cam'. window_events ProcessKeyboard ProcessMouseMovement es v = Inr v' \<and>
     g_pCamera v' = Some cam'"
proof (induction es arbitrary: v cam)
  case Nil
  then show ?case by simp
next
  case (Cons e es)
  have "\<exists>v1 cam1.
      (case e of
         Frame currentFrame keys \<Rightarrow> PrepareSceneView ProcessKeyboard currentFrame keys v
       | CursorMoved xMousePos yMousePos \<Rightarrow>
           Mouse_Position_Callback ProcessMouseMovement xMousePos yMousePos v
       | Scrolled yoffset \<Rightarrow> Inr (ScrollCallback yoffset v)) = Inr v1 \<and>
      g_pCamera v1 = Some cam1"
  proof (cases e)
    case (Frame currentFrame keys)
    have "g_pCamera (v\<lparr> gDeltaTime := currentFrame - gLastFrame v, gLastFrame := currentFrame \<rparr>) =
        Some cam"
      using Cons.prems by simp
    from ProcessKeyboardEvents_keeps_camera [OF this] show ?thesis
      unfolding Frame by (simp add: PrepareSceneView_def)
  next
    case (CursorMoved xMousePos yMousePos)
    with Cons.prems show ?thesis
      by (simp add: Mouse_Position_Callback_def on_camera_def Let_def)
  next
    case (Scrolled yoffset)
    with Cons.prems show ?thesis
      by (simp add: ScrollCallback_def Let_def)
  qed
  then obtain v1 cam1 where s: "(case e of
         Frame currentFrame keys \<Rightarrow> PrepareSceneView ProcessKeyboard currentFrame keys v
       | CursorMoved xMousePos yMousePos \<Rightarrow>
           Mouse_Position_Callback ProcessMouseMovement xMousePos yMousePos v
       | Scrolled yoffset \<Rightarrow> Inr (ScrollCallback yoffset v)) = Inr v1"
    and c: "g_pCamera v1 = Some cam1" by blast
  from Cons.IH [OF c] s show ?case by simp
qed

text \<open>
  C4, as amended. After any run of frames, cursor moves and scrolls from the
  constructor's state, whichever movement keys are held in the same frame, a frame with the
  perspective key pressed and the orthographic key not pressed leaves position, front and
  up at the literal perspective preset and the mode perspective. When the orthographic key
  is pressed in the same frame its block runs last and the orthographic preset stands.
\<close>

theorem perspective_key_resets:
  assumes "GLFW_KEY_P \<in> keys"
  shows "\<exists>v v' cam'.
     window_events ProcessKeyboard ProcessMouseMovement es (ViewManager_new camera) = Inr v \<and>
     PrepareSceneView ProcessKeyboard currentFrame keys v = Inr v' \<and>
     g_pCamera v' = Some cam' \<and>
     (if GLFW_KEY_O \<in> keys
      then Position cam' = Vec3 0 5 10 \<and> Front cam' = normalize (Vec3 0 (- 0.3) (- 1)) \<and>
           Up cam' = Vec3 0 1 0 \<and> bOrthographicProjection v' = True
      else Position cam' = Vec3 0 9 18 \<and> Front cam' = Vec3 0 (- 0.8) (- 3) \<and>
           Up cam' = Vec3 0 1 0 \<and> bOrthographicProjection v' = False)"
proof -
  have "\<exists>cam0. g_pCamera (ViewManager_new camera) = Some cam0"
    by (simp add: ViewManager_new_def)
  then obtain v cam1 where
    v: "window_events ProcessKeyboard ProcessMouseMovement es (ViewManager_new camera) = Inr v"
    and c: "g_pCamera v = Some cam1"
    using window_events_keep_camera by blast
  have "g_pCamera (v\<lparr> gDeltaTime := currentFrame - gLastFrame v, gLastFrame := currentFrame \<rparr>) =
      Some cam1"
    using c by simp
  from mode_keys_any_state [OF this assms, of ProcessKeyboard] v show ?thesis
    unfolding PrepareSceneView_def by blast
qed

theorem perspective_key_resets_witness:
  "\<exists>v v' cam'.
     window_events fly turn
       [Frame 1 {GLFW_KEY_P}, CursorMoved 510 390, Frame 2 {GLFW_KEY_O, GLFW_KEY_W},
        CursorMoved 530 370, Scrolled 3, Frame 3 {GLFW_KEY_W, GLFW_KEY_A}]
       (ViewManager_new plain_camera) = Inr v \<and>
     PrepareSceneView fly 4 {GLFW_KEY_P} v = Inr v' \<and>
     g_pCamera v' = Some cam' \<and>
     Position cam' = Vec3 0 9 18 \<and> Front cam' = Vec3 0 (- 0.8) (- 3) \<and>
     Up cam' = Vec3 0 1 0 \<and> bOrthographicProjection v' = False"
proof -
  have p: "GLFW_KEY_P \<in> {GLFW_KEY_P}" by simp
  show ?thesis
    using perspective_key_resets [OF p, of fly turn
        "[Frame 1 {GLFW_KEY_P}, CursorMoved 510 390, Frame 2 {GLFW_KEY_O, GLFW_KEY_W},
          CursorMoved 530 370, Scrolled 3, Frame 3 {GLFW_KEY_W, GLFW_KEY_A}]" plain_camera 4]
    by simp
qed

text \<open>
  C4 as stated fails when both mode keys are down in one frame: the perspective key is
  pressed, and the camera ends at the orthographic preset, position (0, 5, 10).
\<close>

theorem both_mode_keys_counterexample:
  "ProcessKeyboardEvents fly {GLFW_KEY_P, GLFW_KEY_O} (ViewManager_new plain_camera) =
     Inr ((ViewManager_new plain_camera)\<lparr> g_pCamera := Some (plain_camera\<lparr> Position := Vec3 0 5 10,
            Front := normalize (Vec3 0 (- 0.3) (- 1)), Up := Vec3 0 1 0, Zoom := 80,
            MovementSpeed := 20 \<rparr>),
          bOrthographicProjection := True \<rparr>) \<and>
   Vec3 0 5 10 \<noteq> Vec3 0 9 18"
  by (simp add: ProcessKeyboardEvents_def if_pressed_def on_camera_def ViewManager_new_def
      plain_camera_def)

subsection \<open>The model matrix\<close>

lemma glm_rotate_x: "glm_rotate a (Vec3 1 0 0) = rotateX a"
  by (simp add: glm_rotate_def normalize_def inversesqrt_def rotateX_def Let_def)

lemma glm_rotate_y: "glm_rotate a (Vec3 0 1 0) = rotateY a"
  by (simp add: glm_rotate_def normalize_def inversesqrt_def rotateY_def Let_def)

lemma glm_rotate_z: "glm_rotate a (Vec3 0 0 1) = rotateZ a"
  by (simp add: glm_rotate_def normalize_def inversesqrt_def rotateZ_def Let_def)

lemma mat4_apply_add:
  "mat4_apply m (vec4_add u v) = vec4_add (mat4_apply m u) (mat4_apply m v)"
  by (cases m; cases u; cases v; cases "col0 m"; cases "col1 m"; cases "col2 m"; cases "col3 m")
    (simp add: algebra_simps)

lemma mat4_apply_scale:
  "mat4_apply m (vec4_scale v k) = vec4_scale (mat4_apply m v) k"
  by (cases m; cases v; cases "col0 m"; cases "col1 m"; cases "col2 m"; cases "col3 m")
    (simp add: algebra_simps)

lemma mat4_apply_mul: "mat4_apply (mat4_mul a b) v = mat4_apply a (mat4_apply b v)"
  by (cases b; cases v) (simp add: mat4_apply_add mat4_apply_scale)

lemma mat4_mul_assoc: "mat4_mul (mat4_mul a b) c = mat4_mul a (mat4_mul b c)"
  by (cases c) (simp add: mat4_apply_mul)

lemma apply_scale: "mat4_apply (glm_scale s) (point4 p) = point4 (scale_point s p)"
  by (cases s; cases p) simp

lemma apply_rotateX: "mat4_apply (rotateX a) (point4 p) = point4 (turn_about_x a p)"
  by (cases p) (simp add: rotateX_def algebra_simps)

lemma apply_rotateY: "mat4_apply (rotateY a) (point4 p) = point4 (turn_about_y a p)"
  by (cases p) (simp add: rotateY_def algebra_simps)

lemma apply_rotateZ: "mat4_apply (rotateZ a) (point4 p) = point4 (turn_about_z a p)"
  by (cases p) (simp add: rotateZ_def algebra_simps)

lemma apply_translate: "mat4_apply (glm_translate t) (point4 p) = point4 (vec3_add p t)"
  by (cases t; cases p) (simp add: algebra_simps)

text \<open>
  C1. With a shader manager, \<^verbatim>\<open>SetTransformations\<close> writes to the uniform \<^verbatim>\<open>model\<close>
  the matrix translate(T) * rotateZ(rz) * rotateY(ry) * rotateX(rx) * scale(S), the angles
  taken in radians (degrees times pi / 180). On a point the matrix scales first, then
  turns about X, then about Y, then about Z, and translates last.
\<close>

theorem SetTransformations_order:
  "SetTransformations S rx ry rz T (s\<lparr> m_pShaderManager := Some sh \<rparr>) =
     s\<lparr> m_pShaderManager := Some (sh(g_ModelName \<mapsto> UMat4
        (mat4_mul (glm_translate T)
          (mat4_mul (rotateZ (rz * pi / 180))
            (mat4_mul (rotateY (ry * pi / 180))
              (mat4_mul (rotateX (rx * pi / 180)) (glm_scale S))))))) \<rparr> \<and>
   mat4_apply
        (mat4_mul (glm_translate T)
          (mat4_mul (rotateZ (rz * pi / 180))
            (mat4_mul (rotateY (ry * pi / 180))
              (mat4_mul (rotateX (rx * pi / 180)) (glm_scale S))))) (point4 p) =
     point4 (vec3_add
       (turn_about_z (rz * pi / 180)
         (turn_about_y (ry * pi / 180)
           (turn_about_x (rx * pi / 180) (scale_point S p)))) T)"
  by (simp add: SetTransformations_def Let_def setMat4Value_def glm_rotate_x glm_rotate_y
      glm_rotate_z mat4_mul_assoc radians_def mat4_apply_mul apply_scale apply_rotateX
      apply_rotateY apply_rotateZ apply_translate)

subsection \<open>Candle, flame and pen\<close>

lemma stage_heights_eq:
  "stage_heights = [0, 0.6, 1.6, 1.75, 3.25, 3.25, 3.35, 5.35]"
  by (simp add: stage_heights_def RenderScene_candle_def candleOffset_def Let_def)

lemma currentY_final: "snd RenderScene_candle = 3.55"
  by (simp add: RenderScene_candle_def Let_def)

text \<open>
  C3. For every elapsed time the flicker is 0.92 + 0.12 sin(12 t) + 0.03 sin(37 t); it is
  0.92 at t = 0 and lies within 0.15 of 0.92. With a shader manager, point light 0 gets
  the base diffuse colour times the flicker, the specular colour (1, 0.8, 0.5) times the
  flicker, and the base ambient colour times 0.6 + 0.4 * flicker.
\<close>

theorem flicker_bounds:
  "flicker t = 0.92 + 0.12 * sin (12 * t) + 0.03 * sin (37 * t) \<and>
   flicker 0 = 0.92 \<and>
   0.92 - 0.15 \<le> flicker t \<and> flicker t \<le> 0.92 + 0.15 \<and>
   RenderScene_flame_light t (s\<lparr> m_pShaderManager := Some sh \<rparr>) =
     s\<lparr> m_pShaderManager := Some (sh(
       ''pointLights[0].position'' \<mapsto> UVec3 flamePos,
       ''pointLights[0].diffuse'' \<mapsto>
          UVec3 (Vec3 (0.95 * flicker t) (0.60 * flicker t) (0.25 * flicker t)),
       ''pointLights[0].ambient'' \<mapsto>
          UVec3 (Vec3 (0.07 * (0.6 + 0.4 * flicker t)) (0.04 * (0.6 + 0.4 * flicker t))
                      (0.02 * (0.6 + 0.4 * flicker t))),
       ''pointLights[0].specular'' \<mapsto>
          UVec3 (Vec3 (1.0 * flicker t) (0.8 * flicker t) (0.5 * flicker t)),
       ''pointLights[0].bActive'' \<mapsto> UInt 1)) \<rparr>"
proof (intro conjI)
  show "flicker t = 0.92 + 0.12 * sin (12 * t) + 0.03 * sin (37 * t)"
    by (simp add: flicker_def mult.commute)
  show "flicker 0 = 0.92"
    by (simp add: flicker_def)
  have a: "- 1 \<le> sin (t * 12)" "sin (t * 12) \<le> 1" "- 1 \<le> sin (t * 37)" "sin (t * 37) \<le> 1"
    by simp_all
  have "0 \<le> 15 + (12 * sin (t * 12) + 3 * sin (t * 37))"
    using a(1,3) by linarith
  then show "0.92 - 0.15 \<le> flicker t"
    by (simp add: flicker_def)
  have "12 * sin (t * 12) + 3 * sin (t * 37) \<le> 15"
    using a(2,4) by linarith
  then show "flicker t \<le> 0.92 + 0.15"
    by (simp add: flicker_def)
  show "RenderScene_flame_light t (s\<lparr> m_pShaderManager := Some sh \<rparr>) =
     s\<lparr> m_pShaderManager := Some (sh(
       ''pointLights[0].position'' \<mapsto> UVec3 flamePos,
       ''pointLights[0].diffuse'' \<mapsto>
          UVec3 (Vec3 (0.95 * flicker t) (0.60 * flicker t) (0.25 * flicker t)),
       ''pointLights[0].ambient'' \<mapsto>
          UVec3 (Vec3 (0.07 * (0.6 + 0.4 * flicker t)) (0.04 * (0.6 + 0.4 * flicker t))
                      (0.02 * (0.6 + 0.4 * flicker t))),
       ''pointLights[0].specular'' \<mapsto>
          UVec3 (Vec3 (1.0 * flicker t) (0.8 * flicker t) (0.5 * flicker t)),
       ''pointLights[0].bActive'' \<mapsto> UInt 1)) \<rparr>"
    by (simp add: RenderScene_flame_light_def Let_def setVec3Value_def setIntValue_def)
qed

lemma DrawBookSetup_rotY_value: "DrawBookSetup_rotY = 14.5"
  by (simp add: DrawBookSetup_rotY_def baseRotationY_def)


















lemma stacked_on_last:
  "hs \<noteq> [] \<Longrightarrow> last (stacked_on offset hs) = offset + sum_list hs"
proof (induction hs arbitrary: offset)
  case Nil
  then show ?case by simp
next
  case (Cons h hs)
  show ?case
  proof (cases hs)
    case Nil
    then show ?thesis by simp
  next
    case (Cons h' hs')
    then have "stacked_on (offset + h) hs \<noteq> []" by simp
    moreover have "last (stacked_on (offset + h) hs) = offset + h + sum_list hs"
      using Cons by (intro Cons.IH) simp
    ultimately show ?thesis by simp
  qed
qed

lemma eight_elements:
  "length hs = 8 \<Longrightarrow> \<exists>a b c d e f g h. hs = [a, b, c, d, e, f, g, h]"
  by (auto simp: length_Suc_conv eval_nat_numeral)

text \<open>
  C2, as amended. The eight stages are placed from a running offset \<^verbatim>\<open>currentY\<close> that
  starts at 0. Base, stem, sphere and upper stem stand at the offset accumulated before
  them and then add 0.6, 1.0, 0.15 and 0.8; cup and rim both stand 0.7 above the offset,
  and 1.0 is added after the rim; the candle body stands 0.2 below and the wick 1.8 above
  the offset, which they leave unchanged. After the wick \<^verbatim>\<open>currentY\<close> is the sum of the
  increments in source order, 3.55.
\<close>

theorem candle_stack_accumulation:
  "length (fst RenderScene_candle) = 8 \<and>
   stage_heights =
     map2 (+) (stacked_from 0 [0.6, 1.0, 0.15, 0.8, 0, 1.0, 0, 0])
       [0, 0, 0, 0, 0.7, 0.7, - 0.2, 1.8] \<and>
   stage_heights = [0, 0.6, 1.6, 1.75, 3.25, 3.25, 3.35, 5.35] \<and>
   snd RenderScene_candle = sum_list [0.6, 1.0, 0.15, 0.8, 0, 1.0, 0, 0] \<and>
   snd RenderScene_candle = 3.55"
  by (simp add: stage_heights_eq currentY_final) (simp add: RenderScene_candle_def Let_def)

text \<open>
  C2 as stated fails. No eight height contributions make every stage stand at the previous
  offset plus its own contribution with \<^verbatim>\<open>currentY\<close> ending at their sum: the wick stands
  at 5.35 and \<^verbatim>\<open>currentY\<close> ends at 3.55. Nor do eight non-negative contributions make
  every stage stand at the offset accumulated before it.
\<close>

theorem strict_accumulation_counterexample:
  "\<not> (\<exists>hs. length hs = 8 \<and> stage_heights = stacked_on 0 hs \<and>
          snd RenderScene_candle = sum_list hs) \<and>
   \<not> (\<exists>hs. length hs = 8 \<and> (\<forall>h \<in> set hs. 0 \<le> h) \<and> stage_heights = stacked_from 0 hs \<and>
          snd RenderScene_candle = sum_list hs)"
proof (intro conjI notI)
  assume "\<exists>hs. length hs = 8 \<and> stage_heights = stacked_on 0 hs \<and>
          snd RenderScene_candle = sum_list hs"
  then obtain hs where hs: "length hs = 8" "stage_heights = stacked_on 0 hs"
    "snd RenderScene_candle = sum_list hs" by blast
  from hs(1) have "hs \<noteq> []" by auto
  then have "last (stacked_on 0 hs) = sum_list hs"
    using stacked_on_last [of hs 0] by simp
  with hs(2,3) have "last stage_heights = snd RenderScene_candle" by simp
  then show False
    by (simp add: stage_heights_eq currentY_final)
next
  assume "\<exists>hs. length hs = 8 \<and> (\<forall>h \<in> set hs. 0 \<le> h) \<and> stage_heights = stacked_from 0 hs \<and>
          snd RenderScene_candle = sum_list hs"
  then obtain hs where hs: "length hs = 8" "\<forall>h \<in> set hs. 0 \<le> h"
    "stage_heights = stacked_from 0 hs" "snd RenderScene_candle = sum_list hs" by blast
  from hs(1) obtain a b c d e f g h where l: "hs = [a, b, c, d, e, f, g, h]"
    using eight_elements by blast
  from hs(3) have "a + b + c + d + e + f + g = 5.35"
    unfolding l stage_heights_eq by simp
  moreover from hs(4) have "a + b + c + d + e + f + g + h = 3.55"
    unfolding l currentY_final by simp
  moreover from hs(2) have "0 \<le> h" unfolding l by simp
  ultimately show False by simp
qed

end
